theory Spec2Isabelle
  imports Complex_Main "HOL-Library.Sublist"
begin

section \<open>Strings and paths\<close>

text \<open>
  The report generator (\<^verbatim>\<open>automation/report_generator.py\<close>) works on Python strings and
  \<^verbatim>\<open>pathlib.Path\<close> values. Strings are modelled as HOL strings over ASCII; the case
  functions below are Python's on code points below 128.
\<close>

definition is_upper :: "char \<Rightarrow> bool" where
  "is_upper c = (65 \<le> (of_char c :: nat) \<and> (of_char c :: nat) \<le> 90)"

definition is_lower :: "char \<Rightarrow> bool" where
  "is_lower c = (97 \<le> (of_char c :: nat) \<and> (of_char c :: nat) \<le> 122)"

definition is_cased :: "char \<Rightarrow> bool" where
  "is_cased c = (is_upper c \<or> is_lower c)"

text \<open>
  In ASCII a lower-case letter is its upper-case letter plus 32, which is bit 5 of the
  code point.
\<close>

definition to_upper :: "char \<Rightarrow> char" where
  "to_upper c =
     (if is_lower c
      then (case c of Char b0 b1 b2 b3 b4 b5 b6 b7 \<Rightarrow> Char b0 b1 b2 b3 b4 False b6 b7)
      else c)"

definition to_lower :: "char \<Rightarrow> char" where
  "to_lower c =
     (if is_upper c
      then (case c of Char b0 b1 b2 b3 b4 b5 b6 b7 \<Rightarrow> Char b0 b1 b2 b3 b4 True b6 b7)
      else c)"

text \<open>
  \<^verbatim>\<open>str.title()\<close>: a character that follows a cased character is lower-cased, every other
  character is title-cased (upper-cased, in ASCII).
\<close>

fun title_from :: "bool \<Rightarrow> string \<Rightarrow> string" where
  "title_from previous_is_cased [] = []"
| "title_from previous_is_cased (c # cs) =
     (if previous_is_cased then to_lower c else to_upper c) # title_from (is_cased c) cs"

definition py_title :: "string \<Rightarrow> string" where
  "py_title s = title_from False s"

text \<open>\<^verbatim>\<open>s.replace("_", " ")\<close>: both strings have one character.\<close>

definition replace_underscores :: "string \<Rightarrow> string" where
  "replace_underscores s = map (\<lambda>c. if c = CHR ''_'' then CHR '' '' else c) s"

text \<open>\<^verbatim>\<open>s.rfind(c)\<close>: the last index of \<open>c\<close>, or \<open>None\<close> for Python's \<open>-1\<close>.\<close>

fun rfind :: "char \<Rightarrow> string \<Rightarrow> nat option" where
  "rfind c [] = None"
| "rfind c (x # xs) =
     (case rfind c xs of
        Some i \<Rightarrow> Some (Suc i)
      | None \<Rightarrow> if x = c then Some 0 else None)"

text \<open>
  A path is the list of its components after the anchor (drive and root).
  \<^verbatim>\<open>Path.name\<close> is the last component, or the empty string when there is none;
  \<^verbatim>\<open>Path.stem\<close> cuts the name at its last dot when that dot is neither the first nor the
  last character (\<^verbatim>\<open>0 < i < len(name) - 1\<close>).
\<close>

type_synonym path = "string list"

definition path_name :: "path \<Rightarrow> string" where
  "path_name p = (if p = [] then [] else last p)"

definition path_stem :: "path \<Rightarrow> string" where
  "path_stem p =
     (let name = path_name p in
      case rfind (CHR ''.'') name of
        Some i \<Rightarrow> if 0 < i \<and> i + 1 < length name then take i name else name
      | None \<Rightarrow> name)"

section \<open>ReportConfig\<close>

record ReportConfig =
  json_path :: path
  report_dir :: path
  title :: "string option"

text \<open>
  \<^verbatim>\<open>if self.title:\<close> is Python truthiness of an \<^verbatim>\<open>Optional[str]\<close>: \<^verbatim>\<open>None\<close> and the empty
  string are both false.
\<close>

definition resolved_title :: "ReportConfig \<Rightarrow> string" where
  "resolved_title config =
     (case title config of
        Some t \<Rightarrow>
          if t \<noteq> [] then t
          else ''Data Report: '' @ py_title (replace_underscores (path_stem (json_path config)))
      | None \<Rightarrow> ''Data Report: '' @ py_title (replace_underscores (path_stem (json_path config))))"

section \<open>JSON values and the file system\<close>

text \<open>
  What \<^verbatim>\<open>json.load\<close> returns. Python's parser also reads \<^verbatim>\<open>NaN\<close>, \<^verbatim>\<open>Infinity\<close> and
  \<^verbatim>\<open>-Infinity\<close>, so a float is one of these or a finite number, given by its exact
  value. An object is a \<^verbatim>\<open>dict\<close>: its items in insertion order, with distinct keys.
\<close>

datatype pyfloat = NaN | PosInf | NegInf | Finite rat

datatype json =
    JNull
  | JBool bool
  | JInt int
  | JFloat pyfloat
  | JStr string
  | JArr "json list"
  | JObj "(string \<times> json) list"

text \<open>
  The exceptions that can leave the report generator. \<open>DecodeError\<close> stands for
  \<^verbatim>\<open>json.JSONDecodeError\<close> and \<^verbatim>\<open>UnicodeDecodeError\<close>, raised by \<^verbatim>\<open>json.load\<close> on a file
  that is not UTF-8 JSON; \<open>ValueError\<close> carries the message of the loader's own checks.
\<close>

text \<open>
  The operating system can refuse to look a path up: its name is too long
  (\<^verbatim>\<open>ENAMETOOLONG\<close>), or a directory on the way may not be searched (\<^verbatim>\<open>EACCES\<close>).
  \<^verbatim>\<open>os.stat\<close> then raises an \<^verbatim>\<open>OSError\<close> with that number (for \<^verbatim>\<open>EACCES\<close> it is a
  \<^verbatim>\<open>PermissionError\<close>).
\<close>

datatype refusal = ENAMETOOLONG | EACCES

datatype error =
    FileNotFoundError
  | IsADirectoryError
  | NotADirectoryError
  | FileExistsError
  | OSError refusal
  | DecodeError
  | ValueError string
  | TypeError
  | AttributeError
  | KeyError
  | OverflowError

text \<open>A reading of the local clock, \<^verbatim>\<open>datetime.now()\<close>.\<close>

record datetime =
  year :: nat
  month :: nat
  day :: nat
  hour :: nat
  minute :: nat
  second :: nat
  microsecond :: nat

text \<open>
  A column label is a key of the records or, for a frame built from rows that are not
  dicts, a position.
\<close>

datatype label = Key string | Pos nat

text \<open>
  A page of the report, as \<^verbatim>\<open>pdf.savefig\<close> appends it. The plotting libraries are outside
  the program: a page records which renderer drew it and for which column. The title
  page holds the title, the time of generation, the name of the source file and the
  numbers of rows and columns.
\<close>

datatype page =
    TitlePage string datetime string nat nat
  | NumericPage label
  | CorrelationPage "label list"
  | CategoricalPage label
  | FallbackPage

text \<open>
  The file system gives what is at a path: nothing, a directory, a file that holds a
  JSON value, any other file, a written report, or the refusal of the operating system
  to look the path up.
\<close>

datatype node =
    Directory
  | JsonFile json
  | OtherFile
  | PdfFile "page list"
  | Refused refusal

type_synonym filesystem = "path \<Rightarrow> node option"

section \<open>DataFrame\<close>

text \<open>
  A column of a \<^verbatim>\<open>pandas.DataFrame\<close> has a label, a dtype and one value per row. The dtypes
  are those \<^verbatim>\<open>DataFrame.from_records\<close> infers from JSON values (\<open>Int64\<close>, \<open>UInt64\<close>,
  \<open>Float64\<close>, \<open>Bool\<close>, \<open>Object\<close>) and two that it does not (\<open>Category\<close>, \<open>Datetime64\<close>).
  The calls into pandas are modelled by what pandas 2 does on the values that
  \<^verbatim>\<open>json.load\<close> returns.
\<close>

datatype dtype = Int64 | UInt64 | Float64 | Bool | Object | Category | Datetime64

record Series =
  col_name :: label
  col_dtype :: dtype
  col_values :: "json list"

record DataFrame =
  index_len :: nat
  columns :: "Series list"

text \<open>\<^verbatim>\<open>df.empty\<close>: some axis has length 0.\<close>

definition empty :: "DataFrame \<Rightarrow> bool" where
  "empty df = (index_len df = 0 \<or> columns df = [])"

text \<open>\<^verbatim>\<open>isna\<close>: \<^verbatim>\<open>None\<close> and the float \<^verbatim>\<open>NaN\<close> are the missing values.\<close>

definition isna :: "json \<Rightarrow> bool" where
  "isna v = (v = JNull \<or> v = JFloat NaN)"

definition dropna :: "json list \<Rightarrow> json list" where
  "dropna vs = filter (\<lambda>v. \<not> isna v) vs"

subsection \<open>Dtype inference\<close>

text \<open>
  \<^verbatim>\<open>float(val)\<close> of a Python integer: the nearest binary64 number, ties to the even
  mantissa, and \<^verbatim>\<open>OverflowError\<close> (here \<open>None\<close>) when that is \<open>2 ^ 1024\<close> or more.
  \<open>bit_length\<close> is \<^verbatim>\<open>int.bit_length()\<close> of a number that is not negative.
\<close>

function bit_length :: "int \<Rightarrow> nat" where
  "bit_length a = (if a \<le> 0 then 0 else Suc (bit_length (a div 2)))"
  by pat_completeness auto
termination
  by (relation "measure nat") auto

declare bit_length.simps [simp del]

definition float_of_int :: "int \<Rightarrow> rat option" where
  "float_of_int val =
     (let a = \<bar>val\<bar>; n = bit_length a in
      if n \<le> 53 then Some (of_int val)
      else
        (let e = n - 53;
             q = a div 2 ^ e;
             r = a mod 2 ^ e;
             half = 2 ^ (e - 1);
             m = (if half < r \<or> (r = half \<and> odd q) then q + 1 else q);
             rounded = m * 2 ^ e
         in if 2 ^ 1024 \<le> rounded then None
            else Some (of_int (if val < 0 then - rounded else rounded))))"

text \<open>
  \<^verbatim>\<open>lib.maybe_convert_objects\<close> scans a column of Python objects and records what it has
  seen; the scan stops at the first value that forces dtype \<^verbatim>\<open>object\<close>. Every integer
  that the scan reaches is first cast to a float (\<^verbatim>\<open>floats[i] = <float64_t>val\<close>), which
  raises \<^verbatim>\<open>OverflowError\<close> for an integer too large for one, and is range-checked only
  while no \<^verbatim>\<open>None\<close> has been seen.
\<close>

record Seen =
  seen_null :: bool
  seen_nan :: bool
  seen_bool :: bool
  seen_float :: bool
  seen_int :: bool
  seen_sint :: bool
  seen_uint :: bool
  seen_object :: bool

definition INT64_MIN :: int where "INT64_MIN = - (2 ^ 63)"
definition INT64_MAX :: int where "INT64_MAX = 2 ^ 63 - 1"
definition UINT64_MAX :: int where "UINT64_MAX = 2 ^ 64 - 1"

definition nothing_seen :: Seen where
  "nothing_seen =
     \<lparr>seen_null = False, seen_nan = False, seen_bool = False, seen_float = False,
      seen_int = False, seen_sint = False, seen_uint = False, seen_object = False\<rparr>"

definition saw_int :: "Seen \<Rightarrow> int \<Rightarrow> Seen" where
  "saw_int s val =
     s\<lparr>seen_int := True,
       seen_sint := (seen_sint s \<or> (INT64_MIN \<le> val \<and> val < 0)),
       seen_uint := (seen_uint s \<or> (INT64_MAX < val \<and> val \<le> UINT64_MAX))\<rparr>"

fun scan_objects :: "Seen \<Rightarrow> json list \<Rightarrow> error + Seen" where
  "scan_objects s [] = Inr s"
| "scan_objects s (JNull # vs) = scan_objects (s\<lparr>seen_null := True\<rparr>) vs"
| "scan_objects s (JFloat f # vs) =
     (if f = NaN then scan_objects (s\<lparr>seen_nan := True\<rparr>) vs
      else scan_objects (s\<lparr>seen_float := True\<rparr>) vs)"
| "scan_objects s (JBool b # vs) = scan_objects (s\<lparr>seen_bool := True\<rparr>) vs"
| "scan_objects s (JInt val # vs) =
     (if float_of_int val = None then Inl OverflowError
      else if seen_null s then scan_objects (s\<lparr>seen_int := True\<rparr>) vs
      else
        (let s' = saw_int s val in
         if (seen_uint s' \<and> seen_sint s') \<or> val > UINT64_MAX \<or> val < INT64_MIN
         then Inr (s'\<lparr>seen_object := True\<rparr>)
         else scan_objects s' vs))"
| "scan_objects s (v # vs) = Inr (s\<lparr>seen_object := True\<rparr>)"

definition is_bool :: "Seen \<Rightarrow> bool" where
  "is_bool s =
     (seen_bool s \<and> \<not> (seen_float s \<or> seen_int s \<or> seen_object s)
      \<and> \<not> (seen_nan s \<or> seen_null s))"

definition inferred_dtype :: "Seen \<Rightarrow> dtype" where
  "inferred_dtype s =
     (if seen_bool s then (if is_bool s then Bool else Object)
      else if seen_object s then Object
      else if seen_null s \<or> seen_nan s then
        (if seen_float s then Float64
         else if seen_int s \<or> seen_uint s then Float64
         else if seen_nan s then Float64
         else Object)
      else if seen_float s then Float64
      else if seen_int s then (if seen_uint s then UInt64 else Int64)
      else Object)"

text \<open>
  The values of the converted column: in a float column \<^verbatim>\<open>None\<close> has become \<^verbatim>\<open>NaN\<close> and an
  integer the float it was cast to; every other column keeps its objects.
\<close>

fun to_float64 :: "json \<Rightarrow> error + json" where
  "to_float64 JNull = Inr (JFloat NaN)"
| "to_float64 (JInt val) =
     (case float_of_int val of None \<Rightarrow> Inl OverflowError | Some x \<Rightarrow> Inr (JFloat (Finite x)))"
| "to_float64 v = Inr v"

fun traverse :: "('a \<Rightarrow> error + 'b) \<Rightarrow> 'a list \<Rightarrow> error + 'b list" where
  "traverse f [] = Inr []"
| "traverse f (x # xs) =
     (case f x of
        Inl e \<Rightarrow> Inl e
      | Inr y \<Rightarrow> (case traverse f xs of Inl e \<Rightarrow> Inl e | Inr ys \<Rightarrow> Inr (y # ys)))"

definition maybe_convert_objects :: "json list \<Rightarrow> error + dtype \<times> json list" where
  "maybe_convert_objects arr =
     (case scan_objects nothing_seen arr of
        Inl e \<Rightarrow> Inl e
      | Inr seen \<Rightarrow>
          (let dt = inferred_dtype seen in
           if dt = Float64 then
             (case traverse to_float64 arr of Inl e \<Rightarrow> Inl e | Inr floats \<Rightarrow> Inr (dt, floats))
           else Inr (dt, arr)))"

subsection \<open>from\_records\<close>

text \<open>
  \<^verbatim>\<open>DataFrame.from_records(records)\<close> on a list goes through \<^verbatim>\<open>to_arrays\<close>, which looks at
  the first element: a list takes \<^verbatim>\<open>_list_to_arrays\<close>, a dict \<^verbatim>\<open>_list_of_dict_to_arrays\<close>,
  and anything else is first turned into tuples (\<^verbatim>\<open>[tuple(x) for x in data]\<close>).
\<close>

text \<open>\<^verbatim>\<open>x.keys()\<close>: only a dict has the method.\<close>

fun keys :: "json \<Rightarrow> error + string list" where
  "keys (JObj items) = Inr (map fst items)"
| "keys v = Inl AttributeError"

fun dict_items :: "json \<Rightarrow> (string \<times> json) list" where
  "dict_items (JObj items) = items"
| "dict_items v = []"

text \<open>A record of the dataset is a JSON object.\<close>

definition is_record :: "json \<Rightarrow> bool" where
  "is_record v = (case v of JObj items \<Rightarrow> True | _ \<Rightarrow> False)"

definition dict_get :: "(string \<times> json) list \<Rightarrow> string \<Rightarrow> json \<Rightarrow> json" where
  "dict_get items k fallback = (case map_of items k of Some v \<Rightarrow> v | None \<Rightarrow> fallback)"

text \<open>
  \<^verbatim>\<open>lib.fast_unique_multiple_list_gen(gen, sort=False)\<close>: every value of every list, in
  the order it is first met.
\<close>

fun append_unique :: "'a list \<Rightarrow> 'a list \<Rightarrow> 'a list" where
  "append_unique uniques [] = uniques"
| "append_unique uniques (val # buf) =
     append_unique (if val \<in> set uniques then uniques else uniques @ [val]) buf"

definition fast_unique_multiple_list_gen :: "'a list list \<Rightarrow> 'a list" where
  "fast_unique_multiple_list_gen gen = foldl append_unique [] gen"

text \<open>
  \<^verbatim>\<open>lib.dicts_to_array\<close> fills the cell of a key that a record does not have with
  \<^verbatim>\<open>np.nan\<close>.
\<close>

definition list_of_dict_to_arrays :: "json list \<Rightarrow> error + (label \<times> json list) list" where
  "list_of_dict_to_arrays data =
     (case traverse keys data of
        Inl e \<Rightarrow> Inl e
      | Inr gen \<Rightarrow>
          Inr (map (\<lambda>k. (Key k, map (\<lambda>d. dict_get (dict_items d) k (JFloat NaN)) data))
                 (fast_unique_multiple_list_gen gen)))"

text \<open>
  \<^verbatim>\<open>len(row)\<close>, \<^verbatim>\<open>list(row)\<close> and \<^verbatim>\<open>tuple(row)\<close> of a JSON value: the elements of a list, the
  characters of a string, the keys of a dict; any other value is not iterable.
\<close>

fun py_list :: "json \<Rightarrow> error + json list" where
  "py_list (JArr xs) = Inr xs"
| "py_list (JStr s) = Inr (map (\<lambda>c. JStr [c]) s)"
| "py_list (JObj items) = Inr (map (\<lambda>kv. JStr (fst kv)) items)"
| "py_list v = Inl TypeError"

text \<open>
  \<^verbatim>\<open>lib.to_object_array\<close>: as many columns as the longest row has elements, labelled
  \<open>0, 1, ...\<close>; a shorter row is filled with \<^verbatim>\<open>None\<close>.
\<close>

definition to_object_array :: "json list list \<Rightarrow> (label \<times> json list) list" where
  "to_object_array rows =
     (let k = foldr max (map length rows) 0 in
      map (\<lambda>j. (Pos j, map (\<lambda>row. if j < length row then row ! j else JNull) rows)) [0..<k])"

definition list_to_arrays :: "json list \<Rightarrow> error + (label \<times> json list) list" where
  "list_to_arrays data =
     (case traverse py_list data of
        Inl e \<Rightarrow> Inl e
      | Inr rows \<Rightarrow> Inr (to_object_array rows))"

definition to_arrays :: "json list \<Rightarrow> error + (label \<times> json list) list" where
  "to_arrays data =
     (case data of
        [] \<Rightarrow> Inr []
      | JArr xs # rest \<Rightarrow> list_to_arrays data
      | JObj items # rest \<Rightarrow> list_of_dict_to_arrays data
      | x # rest \<Rightarrow> list_to_arrays data)"

definition finalize_column :: "label \<times> json list \<Rightarrow> error + Series" where
  "finalize_column arr =
     (case maybe_convert_objects (snd arr) of
        Inl e \<Rightarrow> Inl e
      | Inr converted \<Rightarrow>
          Inr \<lparr>col_name = fst arr, col_dtype = fst converted, col_values = snd converted\<rparr>)"

definition from_records :: "json list \<Rightarrow> error + DataFrame" where
  "from_records data =
     (case to_arrays data of
        Inl e \<Rightarrow> Inl e
      | Inr arrays \<Rightarrow>
          (case traverse finalize_column arrays of
             Inl e \<Rightarrow> Inl e
           | Inr cols \<Rightarrow>
               Inr \<lparr>index_len = (case arrays of [] \<Rightarrow> 0 | arr # rest \<Rightarrow> length (snd arr)),
                    columns = cols\<rparr>))"

section \<open>The loader\<close>

text \<open>
  The empty path is the anchor itself (the working directory or the root), which is
  always a directory.
\<close>

definition stat :: "filesystem \<Rightarrow> path \<Rightarrow> node option" where
  "stat fs p = (if p = [] then Some Directory else fs p)"

text \<open>
  \<^verbatim>\<open>Path.exists()\<close> and \<^verbatim>\<open>Path.is_dir()\<close> call \<^verbatim>\<open>os.stat\<close>; they answer \<open>False\<close> when
  nothing is at the path and pass the exception on when the lookup is refused.
\<close>

definition exists_path :: "filesystem \<Rightarrow> path \<Rightarrow> error + bool" where
  "exists_path fs p =
     (case stat fs p of
        None \<Rightarrow> Inr False
      | Some (Refused r) \<Rightarrow> Inl (OSError r)
      | Some node \<Rightarrow> Inr True)"

definition is_dir :: "filesystem \<Rightarrow> path \<Rightarrow> error + bool" where
  "is_dir fs p =
     (case stat fs p of
        Some Directory \<Rightarrow> Inr True
      | Some (Refused r) \<Rightarrow> Inl (OSError r)
      | _ \<Rightarrow> Inr False)"

text \<open>\<^verbatim>\<open>json_path.open("r", encoding="utf-8")\<close> followed by \<^verbatim>\<open>json.load(f)\<close>.\<close>

definition read_json :: "filesystem \<Rightarrow> path \<Rightarrow> error + json" where
  "read_json fs p =
     (case stat fs p of
        None \<Rightarrow> Inl FileNotFoundError
      | Some Directory \<Rightarrow> Inl IsADirectoryError
      | Some (JsonFile raw) \<Rightarrow> Inr raw
      | Some OtherFile \<Rightarrow> Inl DecodeError
      | Some (PdfFile pages) \<Rightarrow> Inl DecodeError
      | Some (Refused r) \<Rightarrow> Inl (OSError r))"

text \<open>\<^verbatim>\<open>raw["data"] if isinstance(raw, dict) and "data" in raw else raw\<close>\<close>

definition unwrap_data :: "json \<Rightarrow> json" where
  "unwrap_data raw =
     (case raw of
        JObj items \<Rightarrow> (case map_of items ''data'' of Some records \<Rightarrow> records | None \<Rightarrow> raw)
      | _ \<Rightarrow> raw)"

definition load_json_dataset :: "filesystem \<Rightarrow> path \<Rightarrow> error + DataFrame" where
  "load_json_dataset fs p =
     (case exists_path fs p of
        Inl e \<Rightarrow> Inl e
      | Inr False \<Rightarrow> Inl FileNotFoundError
      | Inr True \<Rightarrow>
        (case read_json fs p of
           Inl e \<Rightarrow> Inl e
         | Inr raw \<Rightarrow>
             (case unwrap_data raw of
                JArr records \<Rightarrow>
                  if records = [] then Inl (ValueError ''JSON dataset is empty'')
                  else
                    (case from_records records of
                       Inl e \<Rightarrow> Inl e
                     | Inr frame \<Rightarrow>
                         if empty frame
                         then Inl (ValueError ''JSON dataset produced an empty DataFrame'')
                         else Inr frame)
              | _ \<Rightarrow>
                  Inl (ValueError
                    ''JSON dataset must be a list of records or include a 'data' list''))))"

section \<open>The column classifier\<close>

text \<open>
  \<^verbatim>\<open>df.select_dtypes(include=[...])\<close> keeps the columns whose dtype is in one of the named
  groups, in their order. \<^verbatim>\<open>"number"\<close> is the integer and floating-point dtypes; a
  boolean column is not a number.
\<close>

definition is_number :: "dtype \<Rightarrow> bool" where
  "is_number dt = (dt = Int64 \<or> dt = UInt64 \<or> dt = Float64)"

definition is_object_category_bool :: "dtype \<Rightarrow> bool" where
  "is_object_category_bool dt = (dt = Object \<or> dt = Category \<or> dt = Bool)"

definition select_dtypes :: "(dtype \<Rightarrow> bool) \<Rightarrow> DataFrame \<Rightarrow> DataFrame" where
  "select_dtypes include df =
     df\<lparr>columns := filter (\<lambda>s. include (col_dtype s)) (columns df)\<rparr>"

definition numeric_columns :: "DataFrame \<Rightarrow> label list" where
  "numeric_columns df = map col_name (columns (select_dtypes is_number df))"

definition categorical_columns :: "DataFrame \<Rightarrow> label list" where
  "categorical_columns df = map col_name (columns (select_dtypes is_object_category_bool df))"

section \<open>The page renderers\<close>

text \<open>
  The plotting libraries (matplotlib, seaborn) are outside the program, and their calls
  can raise on the data and on the text they are given: matplotlib reads a text with
  two dollar signs as mathtext and raises \<^verbatim>\<open>ValueError\<close> when it does not parse, and a
  histogram of floats whose range is not finite raises \<^verbatim>\<open>ValueError\<close>. The library is
  therefore a parameter: \<open>draw plt page data\<close> is the outcome of the plotting calls of a
  renderer for that page, up to and including \<^verbatim>\<open>pdf.savefig\<close>, on the series it hands
  to them. When they raise, no page is added. \<open>keep_empty\<close> says what \<^verbatim>\<open>PdfPages\<close> does
  with a document that has no page when it is closed: older versions of matplotlib
  write it, newer ones open the file at the first page and leave none.
\<close>

record plotting =
  draw :: "page \<Rightarrow> json list list \<Rightarrow> error option"
  keep_empty :: bool

type_synonym pdf = "page list"

definition render_page :: "plotting \<Rightarrow> pdf \<Rightarrow> page \<Rightarrow> json list list \<Rightarrow> error option \<times> pdf" where
  "render_page plt pdf pg data =
     (case draw plt pg data of
        Some e \<Rightarrow> (Some e, pdf)
      | None \<Rightarrow> (None, pdf @ [pg]))"

text \<open>
  An instance for the examples: a library that raises as matplotlib does on a text
  that is the mathtext \<^verbatim>\<open>$x_$\<close>, which does not parse (its message is abbreviated), and
  draws every other page. The text is the label of the column on a numeric or a
  categorical page, a label of the heatmap's axes, or a line of the title page.
\<close>

definition mathtext_plotting :: plotting where
  "mathtext_plotting =
     \<lparr>draw = (\<lambda>pg data.
        if (case pg of
              TitlePage heading now name rows cols \<Rightarrow> heading = ''$x_$'' \<or> name = ''$x_$''
            | NumericPage column \<Rightarrow> column = Key ''$x_$''
            | CorrelationPage numeric_cols \<Rightarrow> Key ''$x_$'' \<in> set numeric_cols
            | CategoricalPage column \<Rightarrow> column = Key ''$x_$''
            | FallbackPage \<Rightarrow> False)
        then Some (ValueError ''mathtext'') else None),
      keep_empty = True\<rparr>"

text \<open>
  A renderer takes the pages written so far and returns them with its own appended, or
  with the exception that it raised. \<^verbatim>\<open>df[column]\<close> is the column with that label
  (the labels of a loaded frame are distinct) and raises \<^verbatim>\<open>KeyError\<close> when there is none.
\<close>

definition getitem :: "DataFrame \<Rightarrow> label \<Rightarrow> error + Series" where
  "getitem df column =
     (case find (\<lambda>s. col_name s = column) (columns df) of
        Some s \<Rightarrow> Inr s
      | None \<Rightarrow> Inl KeyError)"

definition add_title_page ::
  "plotting \<Rightarrow> pdf \<Rightarrow> ReportConfig \<Rightarrow> DataFrame \<Rightarrow> datetime \<Rightarrow> error option \<times> pdf" where
  "add_title_page plt pdf config df now =
     render_page plt pdf
       (TitlePage (resolved_title config) now (path_name (json_path config))
          (index_len df) (length (columns df))) []"

definition plot_numeric_column ::
  "plotting \<Rightarrow> pdf \<Rightarrow> DataFrame \<Rightarrow> label \<Rightarrow> error option \<times> pdf" where
  "plot_numeric_column plt pdf df column =
     (case getitem df column of
        Inl e \<Rightarrow> (Some e, pdf)
      | Inr s \<Rightarrow>
          (let series = dropna (col_values s) in
           if series = [] then (None, pdf)
           else render_page plt pdf (NumericPage column) [series]))"

text \<open>
  \<^verbatim>\<open>astype(str)\<close> changes the values of the series and not their number, so the series
  is empty exactly when \<^verbatim>\<open>dropna()\<close> left nothing. The bars of the page are drawn by the
  plotting library from \<^verbatim>\<open>series.value_counts().head(10)\<close>; the page records the column.
\<close>

definition plot_categorical_column ::
  "plotting \<Rightarrow> pdf \<Rightarrow> DataFrame \<Rightarrow> label \<Rightarrow> error option \<times> pdf" where
  "plot_categorical_column plt pdf df column =
     (case getitem df column of
        Inl e \<Rightarrow> (Some e, pdf)
      | Inr s \<Rightarrow>
          (let series = dropna (col_values s) in
           if series = [] then (None, pdf)
           else render_page plt pdf (CategoricalPage column) [series]))"

definition plot_correlation_heatmap ::
  "plotting \<Rightarrow> pdf \<Rightarrow> DataFrame \<Rightarrow> label list \<Rightarrow> error option \<times> pdf" where
  "plot_correlation_heatmap plt pdf df numeric_cols =
     (if length numeric_cols < 2 then (None, pdf)
      else
        (case traverse (getitem df) numeric_cols of
           Inl e \<Rightarrow> (Some e, pdf)
         | Inr selected \<Rightarrow>
             render_page plt pdf (CorrelationPage numeric_cols) (map col_values selected)))"

text \<open>Sequencing: an exception ends the block with the pages written so far.\<close>

definition and_then :: "error option \<times> pdf \<Rightarrow> (pdf \<Rightarrow> error option \<times> pdf) \<Rightarrow> error option \<times> pdf" where
  "and_then r f = (case fst r of Some e \<Rightarrow> r | None \<Rightarrow> f (snd r))"

fun for_each :: "(pdf \<Rightarrow> label \<Rightarrow> error option \<times> pdf) \<Rightarrow> pdf \<Rightarrow> label list \<Rightarrow> error option \<times> pdf" where
  "for_each body pdf [] = (None, pdf)"
| "for_each body pdf (column # rest) =
     and_then (body pdf column) (\<lambda>pdf'. for_each body pdf' rest)"

text \<open>The body of \<^verbatim>\<open>with PdfPages(report_path) as pdf:\<close> in \<^verbatim>\<open>generate_pdf_report\<close>.\<close>

definition write_pages ::
  "plotting \<Rightarrow> ReportConfig \<Rightarrow> DataFrame \<Rightarrow> datetime \<Rightarrow> label list \<Rightarrow> label list
     \<Rightarrow> error option \<times> pdf" where
  "write_pages plt config df now numeric_cols categorical_cols =
     and_then (add_title_page plt [] config df now) (\<lambda>pdf.
     and_then
       (if numeric_cols \<noteq> [] then
          and_then
            (for_each (\<lambda>pdf column. plot_numeric_column plt pdf df column) pdf numeric_cols)
            (\<lambda>pdf. plot_correlation_heatmap plt pdf df numeric_cols)
        else (None, pdf)) (\<lambda>pdf.
     and_then
       (if categorical_cols \<noteq> [] then
          for_each (\<lambda>pdf column. plot_categorical_column plt pdf df column) pdf
            categorical_cols
        else (None, pdf)) (\<lambda>pdf.
     if numeric_cols = [] \<and> categorical_cols = [] then render_page plt pdf FallbackPage []
     else (None, pdf))))"

section \<open>The report assembler\<close>

subsection \<open>The destination directory\<close>

text \<open>
  \<^verbatim>\<open>os.mkdir\<close>: the parent must be a directory and the path must not exist.
\<close>

definition os_mkdir :: "path \<Rightarrow> filesystem \<Rightarrow> error option \<times> filesystem" where
  "os_mkdir d fs =
     (if d = [] then (Some FileExistsError, fs)
      else
        (case stat fs (butlast d) of
           None \<Rightarrow> (Some FileNotFoundError, fs)
         | Some Directory \<Rightarrow>
             (case fs d of
                None \<Rightarrow> (None, fs(d \<mapsto> Directory))
              | Some (Refused r) \<Rightarrow> (Some (OSError r), fs)
              | Some node \<Rightarrow> (Some FileExistsError, fs))
         | Some (Refused r) \<Rightarrow> (Some (OSError r), fs)
         | Some other \<Rightarrow> (Some NotADirectoryError, fs)))"

text \<open>
  \<^verbatim>\<open>Path.mkdir(parents=True, exist_ok=True)\<close>: on \<^verbatim>\<open>FileNotFoundError\<close> the parents are made
  first and \<^verbatim>\<open>os.mkdir\<close> is tried again (\<open>mkdir_exist_ok\<close> is the call with
  \<^verbatim>\<open>parents=False\<close>); any other \<^verbatim>\<open>OSError\<close> is passed over when the path is a directory
  (\<^verbatim>\<open>if not exist_ok or not self.is_dir(): raise\<close>).
\<close>

definition unless_is_dir :: "error \<Rightarrow> path \<Rightarrow> filesystem \<Rightarrow> error option \<times> filesystem" where
  "unless_is_dir e d fs =
     (case is_dir fs d of
        Inl e' \<Rightarrow> (Some e', fs)
      | Inr True \<Rightarrow> (None, fs)
      | Inr False \<Rightarrow> (Some e, fs))"

definition mkdir_exist_ok :: "path \<Rightarrow> filesystem \<Rightarrow> error option \<times> filesystem" where
  "mkdir_exist_ok d fs =
     (case os_mkdir d fs of
        (None, fs') \<Rightarrow> (None, fs')
      | (Some e, fs') \<Rightarrow>
          if e = FileNotFoundError then (Some e, fs)
          else unless_is_dir e d fs)"

function mkdir_parents :: "path \<Rightarrow> filesystem \<Rightarrow> error option \<times> filesystem" where
  "mkdir_parents d fs =
     (case os_mkdir d fs of
        (None, fs') \<Rightarrow> (None, fs')
      | (Some e, fs') \<Rightarrow>
          if e = FileNotFoundError then
            (if d = [] then (Some e, fs)
             else
               (case mkdir_parents (butlast d) fs of
                  (Some e', fs1) \<Rightarrow> (Some e', fs1)
                | (None, fs1) \<Rightarrow> mkdir_exist_ok d fs1))
          else unless_is_dir e d fs)"
  by pat_completeness auto
termination
  by (relation "measure (\<lambda>(d, fs). length d)") auto

declare mkdir_parents.simps [simp del]

subsection \<open>The file name\<close>

text \<open>
  \<^verbatim>\<open>datetime.now().strftime("%Y%m%d_%H%M%S")\<close>: the year in four digits, every other field
  in two, zero-padded.
\<close>

definition digit_char :: "nat \<Rightarrow> char" where
  "digit_char n = ''0123456789'' ! (n mod 10)"

definition pad2 :: "nat \<Rightarrow> string" where
  "pad2 n = [digit_char (n div 10), digit_char n]"

definition pad4 :: "nat \<Rightarrow> string" where
  "pad4 n = [digit_char (n div 1000), digit_char (n div 100), digit_char (n div 10), digit_char n]"

definition strftime :: "datetime \<Rightarrow> string" where
  "strftime now =
     pad4 (year now) @ pad2 (month now) @ pad2 (day now) @ ''_''
     @ pad2 (hour now) @ pad2 (minute now) @ pad2 (second now)"

definition report_name :: "datetime \<Rightarrow> string" where
  "report_name now = ''report_'' @ strftime now @ ''.pdf''"

text \<open>
  Two shapes of a file name: \<open>report_\<close>, fourteen digits and \<open>.pdf\<close>; and \<open>report_\<close>, eight
  digits, an underscore, six digits and \<open>.pdf\<close>.
\<close>

definition all_digits :: "string \<Rightarrow> bool" where
  "all_digits s = list_all (\<lambda>c. c \<in> set ''0123456789'') s"

definition name_with_14_digits :: "string \<Rightarrow> bool" where
  "name_with_14_digits name =
     (length name = 25 \<and> take 7 name = ''report_'' \<and> all_digits (take 14 (drop 7 name))
      \<and> drop 21 name = ''.pdf'')"

definition name_with_date_and_time :: "string \<Rightarrow> bool" where
  "name_with_date_and_time name =
     (length name = 26 \<and> take 7 name = ''report_'' \<and> all_digits (take 8 (drop 7 name))
      \<and> take 1 (drop 15 name) = ''_'' \<and> all_digits (take 6 (drop 16 name))
      \<and> drop 22 name = ''.pdf'')"

text \<open>
  Two clock readings are in the same calendar second when they agree in every field but
  the microsecond. A \<^verbatim>\<open>datetime\<close> keeps its fields in range; \<^verbatim>\<open>%Y\<close> has four digits on
  every platform from the year 1000 on.
\<close>

definition same_second :: "datetime \<Rightarrow> datetime \<Rightarrow> bool" where
  "same_second a b =
     (year a = year b \<and> month a = month b \<and> day a = day b
      \<and> hour a = hour b \<and> minute a = minute b \<and> second a = second b)"

definition valid_datetime :: "datetime \<Rightarrow> bool" where
  "valid_datetime t =
     (1000 \<le> year t \<and> year t \<le> 9999 \<and> 1 \<le> month t \<and> month t \<le> 12
      \<and> 1 \<le> day t \<and> day t \<le> 31 \<and> hour t < 24 \<and> minute t < 60 \<and> second t < 60)"

subsection \<open>generate\_pdf\_report\<close>

text \<open>
  The function reads the clock twice: \<open>now\<close> for the file name and, in
  \<^verbatim>\<open>_add_title_page\<close>, \<open>now_title\<close> for the title page. It returns the path of the report
  or the exception, and the file system it leaves. \<^verbatim>\<open>PdfPages\<close> opens the path for
  writing and, as a context manager, closes the document also when the block raises;
  a document without a page is written only when the library keeps empty documents.
\<close>

definition open_for_writing :: "filesystem \<Rightarrow> path \<Rightarrow> error option" where
  "open_for_writing fs p =
     (case stat fs p of
        Some Directory \<Rightarrow> Some IsADirectoryError
      | Some (Refused r) \<Rightarrow> Some (OSError r)
      | _ \<Rightarrow>
          (case stat fs (butlast p) of
             None \<Rightarrow> Some FileNotFoundError
           | Some Directory \<Rightarrow> None
           | Some (Refused r) \<Rightarrow> Some (OSError r)
           | Some other \<Rightarrow> Some NotADirectoryError))"

definition generate_pdf_report ::
  "plotting \<Rightarrow> ReportConfig \<Rightarrow> datetime \<Rightarrow> datetime \<Rightarrow> filesystem
     \<Rightarrow> (error + path) \<times> filesystem" where
  "generate_pdf_report plt config now now_title fs =
     (case load_json_dataset fs (json_path config) of
        Inl e \<Rightarrow> (Inl e, fs)
      | Inr df \<Rightarrow>
          (case mkdir_parents (report_dir config) fs of
             (Some e, fs1) \<Rightarrow> (Inl e, fs1)
           | (None, fs1) \<Rightarrow>
               (let report_path = report_dir config @ [report_name now];
                    numeric_cols = numeric_columns df;
                    categorical_cols = categorical_columns df
                in
                  case write_pages plt config df now_title numeric_cols categorical_cols of
                    (Some e, pages) \<Rightarrow>
                      if pages = [] \<and> \<not> keep_empty plt then (Inl e, fs1)
                      else
                        (case open_for_writing fs1 report_path of
                           Some e' \<Rightarrow> (Inl e', fs1)
                         | None \<Rightarrow> (Inl e, fs1(report_path \<mapsto> PdfFile pages)))
                  | (None, pages) \<Rightarrow>
                      (case open_for_writing fs1 report_path of
                         Some e' \<Rightarrow> (Inl e', fs1)
                       | None \<Rightarrow> (Inr report_path, fs1(report_path \<mapsto> PdfFile pages))))))"

section \<open>Properties of the report title\<close>

lemmas title_eval =
  resolved_title_def py_title_def replace_underscores_def path_stem_def path_name_def
  to_upper_def to_lower_def is_cased_def is_upper_def is_lower_def

text \<open>
  Claim C7, as the code has it. When the title is absent the resolved title is
  \<open>Data Report: \<close> followed by the stem of the source file with underscores replaced by
  spaces and title-cased; a supplied title that is not the empty string is used
  unchanged.
\<close>

theorem resolved_title_default_or_given:
  "(title config = None \<longrightarrow>
      resolved_title config =
        ''Data Report: '' @ py_title (replace_underscores (path_stem (json_path config))))
   \<and> (\<forall>t. title config = Some t \<and> t \<noteq> [] \<longrightarrow> resolved_title config = t)"
  by (simp add: resolved_title_def)

theorem resolved_title_default_or_given_witness:
  "resolved_title \<lparr>json_path = [''data'', ''sales_data.json''], report_dir = [''Reports''],
      title = None\<rparr> = ''Data Report: Sales Data''
   \<and> resolved_title \<lparr>json_path = [''data'', ''sales_data.json''], report_dir = [''Reports''],
      title = Some ''Test Report''\<rparr> = ''Test Report''"
  using resolved_title_default_or_given
    [of "\<lparr>json_path = [''data'', ''sales_data.json''], report_dir = [''Reports''], title = None\<rparr>"]
    resolved_title_default_or_given
    [of "\<lparr>json_path = [''data'', ''sales_data.json''], report_dir = [''Reports''],
          title = Some ''Test Report''\<rparr>"]
  by (simp add: title_eval)

text \<open>
  Claim C7 as stated fails for a supplied title that is the empty string: the resolved
  title is not that string.
\<close>

theorem supplied_empty_title_not_used:
  "resolved_title \<lparr>json_path = [''data'', ''sales_data.json''], report_dir = [''Reports''],
      title = Some ''''\<rparr> \<noteq> ''''"
  by (simp add: resolved_title_def)

text \<open>
  Claim C9. A title that is the empty string resolves as an absent title does: to the
  derived default, not to the empty string.
\<close>

theorem empty_title_is_absent:
  "resolved_title (config\<lparr>title := Some ''''\<rparr>) = resolved_title (config\<lparr>title := None\<rparr>)
   \<and> resolved_title (config\<lparr>title := Some ''''\<rparr>) =
       ''Data Report: '' @ py_title (replace_underscores (path_stem (json_path config)))"
  by (simp add: resolved_title_def)

theorem empty_title_is_absent_witness:
  "resolved_title \<lparr>json_path = [''my_file.v2.json''], report_dir = [''Reports''], title = Some ''''\<rparr>
     = ''Data Report: My File.V2''"
  using empty_title_is_absent
    [of "\<lparr>json_path = [''my_file.v2.json''], report_dir = [''Reports''], title = None\<rparr>"]
  by (simp add: title_eval)

section \<open>Properties of the loader\<close>

lemmas load_eval =
  load_json_dataset_def exists_path_def stat_def read_json_def unwrap_data_def

subsection \<open>What from\_records raises and returns\<close>

lemma traverse_Inl:
  "traverse f xs = Inl e \<Longrightarrow> \<exists>x\<in>set xs. f x = Inl e"
  by (induction xs) (auto split: sum.splits)

lemma traverse_Inr_map:
  "(\<And>x. x \<in> set xs \<Longrightarrow> f x = Inr (g x)) \<Longrightarrow> traverse f xs = Inr (map g xs)"
  by (induction xs) auto

lemma list_all2_traverse:
  "list_all2 (\<lambda>x y. f x = Inr y) xs ys \<longleftrightarrow> traverse f xs = Inr ys"
  by (induction xs arbitrary: ys) (auto simp: list_all2_Cons1 split: sum.splits)

lemma traverse_Inr:
  "traverse f xs = Inr ys \<longleftrightarrow> list_all2 (\<lambda>x y. f x = Inr y) xs ys"
  by (simp add: list_all2_traverse)

lemma traverse_total:
  assumes "\<And>x. x \<in> set xs \<Longrightarrow> \<exists>y. f x = Inr y"
  shows "\<exists>ys. traverse f xs = Inr ys"
proof (cases "traverse f xs")
  case (Inl e)
  then obtain x where "x \<in> set xs" "f x = Inl e"
    using traverse_Inl by fastforce
  with assms show ?thesis by fastforce
next
  case (Inr ys)
  then show ?thesis by blast
qed

lemma keys_Inl: "keys v = Inl e \<Longrightarrow> e = AttributeError"
  by (cases v) auto

lemma py_list_Inl: "py_list v = Inl e \<Longrightarrow> e = TypeError"
  by (cases v) auto

lemma keys_record: "is_record r \<Longrightarrow> keys r = Inr (map fst (dict_items r))"
  by (cases r) (auto simp: is_record_def)

lemma to_arrays_Inl: "to_arrays data = Inl e \<Longrightarrow> e = TypeError \<or> e = AttributeError"
  by (auto simp: to_arrays_def list_to_arrays_def list_of_dict_to_arrays_def
      split: list.splits json.splits sum.splits dest!: traverse_Inl keys_Inl py_list_Inl)

text \<open>
  The conversion of a column raises only \<open>OverflowError\<close>, and only on an integer of the
  column that is too large for a float.
\<close>

lemma to_float64_Inl:
  "to_float64 v = Inl e \<longleftrightarrow> e = OverflowError \<and> (\<exists>n. v = JInt n \<and> float_of_int n = None)"
  by (cases v) (auto split: option.splits)

lemma scan_objects_Inl:
  "scan_objects s vs = Inl e \<Longrightarrow>
     e = OverflowError \<and> (\<exists>v\<in>set vs. to_float64 v = Inl OverflowError)"
  by (induction s vs rule: scan_objects.induct)
    (auto simp: Let_def to_float64_Inl split: if_splits)

lemma traverse_to_float64_Inl:
  assumes "traverse to_float64 arr = Inl e"
  shows "e = OverflowError \<and> (\<exists>v\<in>set arr. to_float64 v = Inl OverflowError)"
proof -
  from assms obtain v where v: "v \<in> set arr" "to_float64 v = Inl e"
    using traverse_Inl by fastforce
  from v(2) have "e = OverflowError"
    by (simp add: to_float64_Inl)
  with v show ?thesis by blast
qed

lemma maybe_convert_objects_Inl:
  "maybe_convert_objects arr = Inl e \<Longrightarrow>
     e = OverflowError \<and> (\<exists>v\<in>set arr. to_float64 v = Inl OverflowError)"
  by (auto simp: maybe_convert_objects_def Let_def
      split: sum.splits if_splits dest!: scan_objects_Inl traverse_to_float64_Inl)

lemma maybe_convert_objects_Inr:
  assumes "maybe_convert_objects arr = Inr (dt, vs)"
  shows "list_all2 (\<lambda>v c. c = v \<or> to_float64 v = Inr c) arr vs"
proof (cases "traverse to_float64 arr = Inr vs")
  case True
  then have "list_all2 (\<lambda>v c. to_float64 v = Inr c) arr vs"
    by (simp add: traverse_Inr)
  then show ?thesis
    by (rule list_all2_mono) simp
next
  case False
  with assms have "vs = arr"
    by (auto simp: maybe_convert_objects_def Let_def split: sum.splits if_splits)
  then show ?thesis
    by (simp add: list_all2_same)
qed

lemma finalize_column_Inl:
  "finalize_column arr = Inl e \<Longrightarrow>
     e = OverflowError \<and> (\<exists>v\<in>set (snd arr). to_float64 v = Inl OverflowError)"
  by (auto simp: finalize_column_def split: sum.splits dest!: maybe_convert_objects_Inl)

lemma finalize_column_Inr:
  assumes "finalize_column arr = Inr s"
  shows "col_name s = fst arr"
    and "list_all2 (\<lambda>v c. c = v \<or> to_float64 v = Inr c) (snd arr) (col_values s)"
proof -
  from assms obtain dt vs where m: "maybe_convert_objects (snd arr) = Inr (dt, vs)"
    and s: "s = \<lparr>col_name = fst arr, col_dtype = dt, col_values = vs\<rparr>"
    by (auto simp: finalize_column_def split: sum.splits)
  show "col_name s = fst arr"
    by (simp add: s)
  show "list_all2 (\<lambda>v c. c = v \<or> to_float64 v = Inr c) (snd arr) (col_values s)"
    using maybe_convert_objects_Inr [OF m] by (simp add: s)
qed

lemma from_records_Inl:
  "from_records data = Inl e \<Longrightarrow> e = TypeError \<or> e = AttributeError \<or> e = OverflowError"
  by (auto simp: from_records_def split: sum.splits
      dest: to_arrays_Inl dest!: traverse_Inl finalize_column_Inl)

lemma append_unique_set: "set (append_unique uniques buf) = set uniques \<union> set buf"
  by (induction buf arbitrary: uniques) auto

lemma append_unique_distinct: "distinct uniques \<Longrightarrow> distinct (append_unique uniques buf)"
  by (induction buf arbitrary: uniques) auto

lemma foldl_append_unique_set:
  "set (foldl append_unique acc gen) = set acc \<union> (\<Union>buf\<in>set gen. set buf)"
  by (induction gen arbitrary: acc) (auto simp: append_unique_set)

lemma foldl_append_unique_distinct:
  "distinct acc \<Longrightarrow> distinct (foldl append_unique acc gen)"
  by (induction gen arbitrary: acc) (auto simp: append_unique_distinct)

lemma fast_unique_set:
  "set (fast_unique_multiple_list_gen gen) = (\<Union>buf\<in>set gen. set buf)"
  by (simp add: fast_unique_multiple_list_gen_def foldl_append_unique_set)

lemma fast_unique_distinct: "distinct (fast_unique_multiple_list_gen gen)"
  by (simp add: fast_unique_multiple_list_gen_def foldl_append_unique_distinct)

lemma to_arrays_records:
  assumes "records \<noteq> []" and "\<forall>r\<in>set records. is_record r"
  shows "to_arrays records =
     Inr (map (\<lambda>k. (Key k, map (\<lambda>d. dict_get (dict_items d) k (JFloat NaN)) records))
            (fast_unique_multiple_list_gen (map (\<lambda>r. map fst (dict_items r)) records)))"
proof -
  from assms obtain items rest where r: "records = JObj items # rest"
    by (cases records; cases "hd records") (auto simp: is_record_def)
  have "traverse keys records = Inr (map (\<lambda>r. map fst (dict_items r)) records)"
    using assms(2) by (intro traverse_Inr_map) (simp add: keys_record)
  then show ?thesis
    by (simp add: to_arrays_def r list_of_dict_to_arrays_def)
qed

lemma to_arrays_distinct:
  "to_arrays data = Inr arrays \<Longrightarrow> distinct (map fst arrays)"
  by (auto simp: to_arrays_def list_to_arrays_def list_of_dict_to_arrays_def to_object_array_def
      Let_def distinct_map inj_on_def comp_def fast_unique_distinct
      split: list.splits json.splits sum.splits)

lemma finalized_names:
  "traverse finalize_column arrays = Inr cols \<Longrightarrow> map col_name cols = map fst arrays"
  unfolding traverse_Inr
  by (induction arrays cols rule: list_all2_induct) (auto dest: finalize_column_Inr(1))

lemma from_records_distinct:
  "from_records data = Inr df \<Longrightarrow> distinct (map col_name (columns df))"
  by (auto simp: from_records_def finalized_names split: sum.splits dest: to_arrays_distinct)

lemma load_distinct:
  "load_json_dataset fs p = Inr df \<Longrightarrow> distinct (map col_name (columns df))"
  by (auto simp: load_json_dataset_def split: if_splits sum.splits json.splits bool.splits
      dest: from_records_distinct)

text \<open>
  The cells of the column of a key: the value of each record under the key, or \<open>NaN\<close>.
\<close>

lemma cell_cases:
  "dict_get (dict_items r) k (JFloat NaN) = JFloat NaN
   \<or> dict_get (dict_items r) k (JFloat NaN) \<in> snd ` set (dict_items r)"
  by (auto simp: dict_get_def rev_image_eqI split: option.splits dest!: map_of_SomeD)

lemma from_records_of_records:
  assumes "records \<noteq> []" and "\<forall>r\<in>set records. is_record r"
      and "\<forall>r\<in>set records. \<forall>kv\<in>set (dict_items r). to_float64 (snd kv) \<noteq> Inl OverflowError"
  shows "\<exists>cols. from_records records =
       Inr \<lparr>index_len =
              (if (\<forall>r\<in>set records. dict_items r = []) then 0 else length records),
            columns = cols\<rparr>
     \<and> traverse finalize_column
         (map (\<lambda>k. (Key k, map (\<lambda>d. dict_get (dict_items d) k (JFloat NaN)) records))
            (fast_unique_multiple_list_gen (map (\<lambda>r. map fst (dict_items r)) records)))
         = Inr cols"
proof -
  let ?cells = "\<lambda>k. map (\<lambda>d. dict_get (dict_items d) k (JFloat NaN)) records"
  let ?u = "fast_unique_multiple_list_gen (map (\<lambda>r. map fst (dict_items r)) records)"
  let ?arrays = "map (\<lambda>k. (Key k, ?cells k)) ?u"
  have e: "?u = [] \<longleftrightarrow> (\<forall>r\<in>set records. dict_items r = [])"
    using fast_unique_set [of "map (\<lambda>r. map fst (dict_items r)) records"]
    by (auto simp flip: set_empty)
  have "\<exists>s. finalize_column arr = Inr s" if "arr \<in> set ?arrays" for arr
  proof (cases "finalize_column arr")
    case (Inl err)
    then obtain v where v: "v \<in> set (snd arr)" "to_float64 v = Inl OverflowError"
      using finalize_column_Inl by blast
    from that v(1) obtain k r where r: "r \<in> set records"
      "v = dict_get (dict_items r) k (JFloat NaN)"
      by auto
    from v(2) have "v \<noteq> JFloat NaN"
      by auto
    with cell_cases [of r k] r(2) obtain kv where "kv \<in> set (dict_items r)" "snd kv = v"
      by auto
    with assms(3) r(1) v(2) show ?thesis
      by auto
  next
    case (Inr s)
    then show ?thesis by blast
  qed
  then obtain cols where cols: "traverse finalize_column ?arrays = Inr cols"
    using traverse_total [of ?arrays finalize_column] by blast
  have "from_records records =
       Inr \<lparr>index_len = (if (\<forall>r\<in>set records. dict_items r = []) then 0 else length records),
            columns = cols\<rparr>"
    using cols e
    by (auto simp: from_records_def to_arrays_records [OF assms(1,2)] split: list.splits)
  with cols show ?thesis by blast
qed

text \<open>
  The table of a non-empty array of records in which some record has a key and no
  integer is too large for a float: a column for each key, in the order the keys are
  first met, and a row for each record.
\<close>

lemma load_of_records:
  assumes "stat fs p = Some (JsonFile raw)"
      and "unwrap_data raw = JArr records"
      and "records \<noteq> []" and "\<forall>r\<in>set records. is_record r"
      and "\<exists>r\<in>set records. dict_items r \<noteq> []"
      and "\<forall>r\<in>set records. \<forall>kv\<in>set (dict_items r). to_float64 (snd kv) \<noteq> Inl OverflowError"
  shows "\<exists>cols. load_json_dataset fs p = Inr \<lparr>index_len = length records, columns = cols\<rparr>
     \<and> list_all2 (\<lambda>k s. finalize_column
                    (Key k, map (\<lambda>d. dict_get (dict_items d) k (JFloat NaN)) records) = Inr s)
         (fast_unique_multiple_list_gen (map (\<lambda>r. map fst (dict_items r)) records)) cols"
proof -
  let ?cells = "\<lambda>k. map (\<lambda>d. dict_get (dict_items d) k (JFloat NaN)) records"
  let ?u = "fast_unique_multiple_list_gen (map (\<lambda>r. map fst (dict_items r)) records)"
  have ne: "\<not> (\<forall>r\<in>set records. dict_items r = [])"
    using assms(5) by blast
  from from_records_of_records [OF assms(3,4,6)] obtain cols where
    f0: "from_records records =
       Inr \<lparr>index_len = (if (\<forall>r\<in>set records. dict_items r = []) then 0 else length records),
            columns = cols\<rparr>"
    and t: "traverse finalize_column (map (\<lambda>k. (Key k, ?cells k)) ?u) = Inr cols"
    by blast
  from f0 have f: "from_records records = Inr \<lparr>index_len = length records, columns = cols\<rparr>"
    by (simp only: ne if_False)
  from t have l: "list_all2 (\<lambda>k s. finalize_column (Key k, ?cells k) = Inr s) ?u cols"
    by (simp add: traverse_Inr list_all2_map1)
  have "?u \<noteq> []"
    using fast_unique_set [of "map (\<lambda>r. map fst (dict_items r)) records"] assms(5)
    by (auto simp flip: set_empty)
  with l have "cols \<noteq> []"
    by (auto dest: list_all2_lengthD)
  with f assms(1-3) have "load_json_dataset fs p
      = Inr \<lparr>index_len = length records, columns = cols\<rparr>"
    by (simp add: load_json_dataset_def exists_path_def read_json_def empty_def)
  with l show ?thesis by blast
qed

lemma finalized_cell:
  assumes "finalize_column (Key k, map (\<lambda>d. dict_get (dict_items d) k (JFloat NaN)) records)
             = Inr s"
  shows "col_name s = Key k"
    and "length (col_values s) = length records"
    and "i < length records \<Longrightarrow> map_of (dict_items (records ! i)) k = None \<Longrightarrow>
           isna (col_values s ! i)"
    and "i < length records \<Longrightarrow> map_of (dict_items (records ! i)) k = Some v \<Longrightarrow>
           col_values s ! i = v \<or> to_float64 v = Inr (col_values s ! i)"
proof -
  let ?cells = "map (\<lambda>d. dict_get (dict_items d) k (JFloat NaN)) records"
  from finalize_column_Inr [OF assms] have n: "col_name s = Key k"
    and l: "list_all2 (\<lambda>v c. c = v \<or> to_float64 v = Inr c) ?cells (col_values s)"
    by simp_all
  show "col_name s = Key k" by (rule n)
  from l show len: "length (col_values s) = length records"
    by (auto dest: list_all2_lengthD)
  have cell: "col_values s ! i = ?cells ! i \<or> to_float64 (?cells ! i) = Inr (col_values s ! i)"
    if "i < length records" for i
    using l that by (auto simp: list_all2_conv_all_nth)
  show "isna (col_values s ! i)"
    if "i < length records" "map_of (dict_items (records ! i)) k = None"
    using cell [OF that(1)] that by (auto simp: dict_get_def isna_def)
  show "col_values s ! i = v \<or> to_float64 v = Inr (col_values s ! i)"
    if "i < length records" "map_of (dict_items (records ! i)) k = Some v"
    using cell [OF that(1)] that by (auto simp: dict_get_def)
qed

lemma load_not_found_iff:
  "load_json_dataset fs p = Inl FileNotFoundError \<longleftrightarrow> exists_path fs p = Inr False"
  by (auto simp: load_json_dataset_def exists_path_def read_json_def
      split: option.splits node.splits json.splits sum.splits bool.splits
      dest: from_records_Inl)

lemma load_value_error_iff:
  assumes "stat fs p = Some (JsonFile raw)"
  shows "(\<exists>msg. load_json_dataset fs p = Inl (ValueError msg)) \<longleftrightarrow>
           (\<forall>records. unwrap_data raw \<noteq> JArr records)
           \<or> unwrap_data raw = JArr []
           \<or> (\<exists>records df. unwrap_data raw = JArr records \<and> from_records records = Inr df
                 \<and> empty df)"
  using assms
  by (auto simp: load_json_dataset_def exists_path_def read_json_def
      split: json.splits sum.splits dest: from_records_Inl)

lemma load_nonempty:
  "load_json_dataset fs p = Inr df \<Longrightarrow> 1 \<le> index_len df \<and> 1 \<le> length (columns df)"
  by (auto simp: load_json_dataset_def empty_def Suc_le_eq
      split: if_splits json.splits sum.splits bool.splits)

lemma load_records_succeeds:
  assumes "stat fs p = Some (JsonFile raw)" and "unwrap_data raw = JArr records"
    and "records \<noteq> []" and "\<forall>r\<in>set records. is_record r"
    and "\<forall>r\<in>set records. \<forall>kv\<in>set (dict_items r). to_float64 (snd kv) \<noteq> Inl OverflowError"
    and "\<not> (\<exists>df. from_records records = Inr df \<and> empty df)"
  shows "\<exists>df. load_json_dataset fs p = Inr df"
proof -
  obtain df where df: "from_records records = Inr df"
    using from_records_of_records [OF assms(3,4,5)] by blast
  with assms(6) have "\<not> empty df" by blast
  with df assms(1-3) show ?thesis
    by (simp add: load_json_dataset_def exists_path_def read_json_def)
qed

lemma load_wrapped:
  assumes "stat fs p = Some (JsonFile (JObj items))" and "map_of items ''data'' = Some v"
  shows "load_json_dataset fs p =
     (case v of
        JArr records \<Rightarrow>
          if records = [] then Inl (ValueError ''JSON dataset is empty'')
          else
            (case from_records records of
               Inl e \<Rightarrow> Inl e
             | Inr frame \<Rightarrow>
                 if empty frame
                 then Inl (ValueError ''JSON dataset produced an empty DataFrame'')
                 else Inr frame)
      | _ \<Rightarrow>
          Inl (ValueError ''JSON dataset must be a list of records or include a 'data' list''))"
  using assms by (simp add: load_json_dataset_def exists_path_def read_json_def unwrap_data_def)

lemma load_bare:
  assumes "stat fs p = Some (JsonFile (JArr records))"
  shows "load_json_dataset fs p =
     (if records = [] then Inl (ValueError ''JSON dataset is empty'')
      else
        (case from_records records of
           Inl e \<Rightarrow> Inl e
         | Inr frame \<Rightarrow>
             if empty frame
             then Inl (ValueError ''JSON dataset produced an empty DataFrame'')
             else Inr frame))"
  using assms by (simp add: load_json_dataset_def exists_path_def read_json_def unwrap_data_def)


subsection \<open>Loading an array of records\<close>

text \<open>
  Claim C2, as the code has it. For a JSON input that is a non-empty array of record
  objects, at the top level or under a \<open>data\<close> key, in which some record has at
  least one key and no record has an integer value too large to convert to a float,
  loading succeeds; the labels of the columns are distinct and are the union of the
  keys of all records, the row count is the length of the array, and a record that
  lacks a key has a missing value in that column at its row, while a key that it has
  gives its value there, which in a float column is its conversion to a float.
\<close>

theorem load_record_array:
  assumes "stat fs p = Some (JsonFile raw)"
      and "raw = JArr records
           \<or> (\<exists>items. raw = JObj items \<and> map_of items ''data'' = Some (JArr records))"
      and "records \<noteq> []"
      and "\<forall>r\<in>set records. is_record r"
      and "\<exists>r\<in>set records. dict_items r \<noteq> []"
      and "\<forall>r\<in>set records. \<forall>kv\<in>set (dict_items r). to_float64 (snd kv) \<noteq> Inl OverflowError"
  shows "\<exists>df. load_json_dataset fs p = Inr df
      \<and> distinct (map col_name (columns df))
      \<and> set (map col_name (columns df)) = Key ` (\<Union>r\<in>set records. fst ` set (dict_items r))
      \<and> index_len df = length records
      \<and> (\<forall>s\<in>set (columns df). length (col_values s) = length records)
      \<and> (\<forall>s\<in>set (columns df). \<forall>i<length records. \<forall>k.
            col_name s = Key k \<and> map_of (dict_items (records ! i)) k = None
              \<longrightarrow> isna (col_values s ! i))
      \<and> (\<forall>s\<in>set (columns df). \<forall>i<length records. \<forall>k v.
            col_name s = Key k \<and> map_of (dict_items (records ! i)) k = Some v
              \<longrightarrow> col_values s ! i = v \<or> to_float64 v = Inr (col_values s ! i))"
proof -
  let ?cells = "\<lambda>k. map (\<lambda>d. dict_get (dict_items d) k (JFloat NaN)) records"
  let ?u = "fast_unique_multiple_list_gen (map (\<lambda>r. map fst (dict_items r)) records)"
  have unwrap: "unwrap_data raw = JArr records"
    using assms(2) by (auto simp: unwrap_data_def)
  from load_of_records [OF assms(1) unwrap assms(3-6)] obtain cols where
    load: "load_json_dataset fs p = Inr \<lparr>index_len = length records, columns = cols\<rparr>"
    and l: "list_all2 (\<lambda>k s. finalize_column (Key k, ?cells k) = Inr s) ?u cols"
    by blast
  let ?df = "\<lparr>index_len = length records, columns = cols\<rparr>"
  from l have "list_all2 (\<lambda>k s. col_name s = Key k) ?u cols"
    by (rule list_all2_mono) (simp add: finalized_cell(1))
  then have names: "map col_name cols = map Key ?u"
    by (induction rule: list_all2_induct) simp_all
  have d: "distinct (map col_name (columns ?df))"
    by (simp add: names distinct_map fast_unique_distinct inj_on_def)
  have "map col_name (columns ?df) = map Key ?u"
    using names by simp
  then have "set (map col_name (columns ?df)) = set (map Key ?u)"
    by (rule arg_cong)
  also have "\<dots> = Key ` (\<Union>r\<in>set records. fst ` set (dict_items r))"
    by (auto simp: fast_unique_set)
  finally have s: "set (map col_name (columns ?df))
      = Key ` (\<Union>r\<in>set records. fst ` set (dict_items r))" .
  have col: "\<exists>k. finalize_column (Key k, ?cells k) = Inr s" if "s \<in> set cols" for s
    using l that by (auto simp: list_all2_conv_all_nth in_set_conv_nth)
  have len: "\<forall>s\<in>set (columns ?df). length (col_values s) = length records"
    using col finalized_cell(2) by fastforce
  have missing: "\<forall>s\<in>set (columns ?df). \<forall>i<length records. \<forall>k.
            col_name s = Key k \<and> map_of (dict_items (records ! i)) k = None
              \<longrightarrow> isna (col_values s ! i)"
  proof (intro ballI allI impI)
    fix s i k
    assume s: "s \<in> set (columns ?df)" and i: "i < length records"
      and k: "col_name s = Key k \<and> map_of (dict_items (records ! i)) k = None"
    from s col obtain k' where f: "finalize_column (Key k', ?cells k') = Inr s" by auto
    with k have "k' = k" using finalized_cell(1) [OF f] by simp
    with f k i show "isna (col_values s ! i)"
      using finalized_cell(3) by blast
  qed
  have present: "\<forall>s\<in>set (columns ?df). \<forall>i<length records. \<forall>k v.
            col_name s = Key k \<and> map_of (dict_items (records ! i)) k = Some v
              \<longrightarrow> col_values s ! i = v \<or> to_float64 v = Inr (col_values s ! i)"
  proof (intro ballI allI impI)
    fix s i k v
    assume s: "s \<in> set (columns ?df)" and i: "i < length records"
      and k: "col_name s = Key k \<and> map_of (dict_items (records ! i)) k = Some v"
    from s col obtain k' where f: "finalize_column (Key k', ?cells k') = Inr s" by auto
    with k have "k' = k" using finalized_cell(1) [OF f] by simp
    with f k i show "col_values s ! i = v \<or> to_float64 v = Inr (col_values s ! i)"
      using finalized_cell(4) by blast
  qed
  show ?thesis
    using load d s len missing present by (intro exI [of _ ?df]) simp
qed

theorem load_record_array_witness:
  "\<exists>df. load_json_dataset
          (Map.empty([''data.json''] \<mapsto>
             JsonFile (JArr [JObj [(''value'', JInt 1), (''category'', JStr ''A'')],
                             JObj [(''value'', JInt 2)]])))
          [''data.json''] = Inr df
      \<and> set (map col_name (columns df)) = {Key ''value'', Key ''category''}
      \<and> index_len df = 2
      \<and> (\<forall>s\<in>set (columns df). col_name s = Key ''category'' \<longrightarrow> isna (col_values s ! 1))"
proof -
  let ?records = "[JObj [(''value'', JInt 1), (''category'', JStr ''A'')], JObj [(''value'', JInt 2)]]"
  let ?fs = "Map.empty([''data.json''] \<mapsto> JsonFile (JArr ?records))"
  have h1: "stat ?fs [''data.json''] = Some (JsonFile (JArr ?records))"
    by (simp add: stat_def)
  have h2: "JArr ?records = JArr ?records
      \<or> (\<exists>items. JArr ?records = JObj items \<and> map_of items ''data'' = Some (JArr ?records))"
    by simp
  have h3: "?records \<noteq> []" by simp
  have h4: "\<forall>r\<in>set ?records. is_record r" by (simp add: is_record_def)
  have h5: "\<exists>r\<in>set ?records. dict_items r \<noteq> []" by simp
  have f: "float_of_int 1 = Some 1" "float_of_int 2 = Some 2"
    by code_simp+
  have h6: "\<forall>r\<in>set ?records. \<forall>kv\<in>set (dict_items r). to_float64 (snd kv) \<noteq> Inl OverflowError"
    by (simp add: f)
  from load_record_array [OF h1 h2 h3 h4 h5 h6] obtain df where
    df: "load_json_dataset ?fs [''data.json''] = Inr df"
    "set (map col_name (columns df)) = Key ` (\<Union>r\<in>set ?records. fst ` set (dict_items r))"
    "index_len df = length ?records"
    "\<forall>s\<in>set (columns df). \<forall>i<length ?records. \<forall>k.
            col_name s = Key k \<and> map_of (dict_items (?records ! i)) k = None
              \<longrightarrow> isna (col_values s ! i)"
    by blast
  from df(4) have "\<forall>s\<in>set (columns df). col_name s = Key ''category'' \<longrightarrow> isna (col_values s ! 1)"
    by (auto dest!: bspec spec [of _ 1] spec [of _ "''category''"])
  with df(1-3) show ?thesis
    by (intro exI [of _ df]) auto
qed

text \<open>
  Claim C2 as stated fails for an array of record objects none of which has a key:
  the table has no column and the loader raises \<open>ValueError\<close>. It fails as well for a
  record with an integer of \<open>2 ^ 1024\<close>: the conversion of its column raises
  \<open>OverflowError\<close>.
\<close>

theorem no_keys_record_array_fails:
  "load_json_dataset (Map.empty([''data.json''] \<mapsto> JsonFile (JArr [JObj [], JObj []])))
     [''data.json'']
   = Inl (ValueError ''JSON dataset produced an empty DataFrame'')
   \<and> load_json_dataset
       (Map.empty([''data.json''] \<mapsto> JsonFile (JArr [JObj [(''a'', JInt (2 ^ 1024))]])))
       [''data.json'']
     = Inl OverflowError"
  by code_simp

subsection \<open>The outcomes of the loader\<close>

text \<open>
  Claim C3, as the code has it. The loader fails with \<open>FileNotFoundError\<close> exactly
  when \<^verbatim>\<open>Path.exists()\<close> answers that the path does not exist. For an existing file that
  holds the JSON value \<open>raw\<close> it fails with a \<open>ValueError\<close> exactly when the value,
  after unwrapping \<open>data\<close>, is not an array, or is the empty array, or the table built
  from it has no row or no column. In every other case in which all elements of the
  array are record objects and no record has an integer value too large to convert to
  a float it returns a Dataset, and a Dataset that it returns has at least one row and
  one column.
\<close>

theorem load_outcomes:
  "(load_json_dataset fs p = Inl FileNotFoundError \<longleftrightarrow> exists_path fs p = Inr False)
   \<and> (stat fs p = Some (JsonFile raw) \<longrightarrow>
        ((\<exists>msg. load_json_dataset fs p = Inl (ValueError msg)) \<longleftrightarrow>
           (\<forall>records. unwrap_data raw \<noteq> JArr records)
           \<or> unwrap_data raw = JArr []
           \<or> (\<exists>records df. unwrap_data raw = JArr records \<and> from_records records = Inr df
                 \<and> empty df)))
   \<and> (stat fs p = Some (JsonFile raw) \<and> unwrap_data raw = JArr records \<and> records \<noteq> []
        \<and> (\<forall>r\<in>set records. is_record r)
        \<and> (\<forall>r\<in>set records. \<forall>kv\<in>set (dict_items r). to_float64 (snd kv) \<noteq> Inl OverflowError)
        \<and> \<not> (\<exists>df. from_records records = Inr df \<and> empty df)
        \<longrightarrow> (\<exists>df. load_json_dataset fs p = Inr df))
   \<and> (\<forall>df. load_json_dataset fs p = Inr df \<longrightarrow> 1 \<le> index_len df \<and> 1 \<le> length (columns df))"
  using load_not_found_iff [of fs p] load_value_error_iff [of fs p raw]
    load_records_succeeds [of fs p raw records] load_nonempty [of fs p]
  by blast

theorem load_outcomes_witness:
  "load_json_dataset
      (Map.empty([''invalid.json''] \<mapsto> JsonFile (JObj [(''not'', JStr ''a list'')])))
      [''missing.json''] = Inl FileNotFoundError
   \<and> (\<exists>msg. load_json_dataset
      (Map.empty([''invalid.json''] \<mapsto> JsonFile (JObj [(''not'', JStr ''a list'')])))
      [''invalid.json''] = Inl (ValueError msg))
   \<and> (\<exists>df. load_json_dataset
      (Map.empty([''data.json''] \<mapsto> JsonFile (JObj [(''data'', JArr [JObj [(''value'', JInt 1)]])])))
      [''data.json''] = Inr df \<and> 1 \<le> index_len df \<and> 1 \<le> length (columns df))"
proof -
  let ?fs = "Map.empty([''invalid.json''] \<mapsto> JsonFile (JObj [(''not'', JStr ''a list'')]))"
  let ?records = "[JObj [(''value'', JInt 1)]]"
  let ?raw = "JObj [(''data'', JArr ?records)]"
  let ?fs' = "Map.empty([''data.json''] \<mapsto> JsonFile ?raw)"
  have a: "exists_path ?fs [''missing.json''] = Inr False"
    by (simp add: exists_path_def stat_def)
  have b1: "stat ?fs [''invalid.json''] = Some (JsonFile (JObj [(''not'', JStr ''a list'')]))"
    by (simp add: stat_def)
  have b2: "\<forall>records. unwrap_data (JObj [(''not'', JStr ''a list'')]) \<noteq> JArr records"
    by (simp add: unwrap_data_def)
  have c1: "stat ?fs' [''data.json''] = Some (JsonFile ?raw)"
    by (simp add: stat_def)
  have c2: "unwrap_data ?raw = JArr ?records"
    by (simp add: unwrap_data_def)
  have c3: "?records \<noteq> []" by simp
  have c4: "\<forall>r\<in>set ?records. is_record r" by (simp add: is_record_def)
  have "float_of_int 1 = Some 1"
    by code_simp
  then have c5: "\<forall>r\<in>set ?records. \<forall>kv\<in>set (dict_items r). to_float64 (snd kv) \<noteq> Inl OverflowError"
    by simp
  have "case from_records ?records of Inl e \<Rightarrow> True | Inr df \<Rightarrow> \<not> empty df"
    by code_simp
  then have c6: "\<not> (\<exists>df. from_records ?records = Inr df \<and> empty df)"
    by (auto split: sum.splits)
  have r1: "load_json_dataset ?fs [''missing.json''] = Inl FileNotFoundError"
    using load_outcomes [of ?fs "[''missing.json'']"] a by blast
  have r2: "\<exists>msg. load_json_dataset ?fs [''invalid.json''] = Inl (ValueError msg)"
    using load_outcomes [of ?fs "[''invalid.json'']" "JObj [(''not'', JStr ''a list'')]"] b1 b2
    by blast
  have "\<exists>df. load_json_dataset ?fs' [''data.json''] = Inr df"
    using load_outcomes [of ?fs' "[''data.json'']" ?raw ?records] c1 c2 c3 c4 c5 c6 by blast
  then obtain df where df: "load_json_dataset ?fs' [''data.json''] = Inr df" ..
  then have "1 \<le> index_len df \<and> 1 \<le> length (columns df)"
    using load_outcomes [of ?fs' "[''data.json'']"] by blast
  with df r1 r2 show ?thesis by blast
qed

text \<open>
  Claim C3 as stated fails in three ways. For \<open>[1]\<close>, a non-empty array with an element
  that is not a record, the path exists and no table is built, yet the loader returns
  no Dataset: \<open>from_records\<close> raises \<open>TypeError\<close>. For an array whose one record has the
  integer \<open>2 ^ 1024\<close> the conversion of the column raises \<open>OverflowError\<close>. And for a
  path whose name is too long for the operating system, nothing is at the path, yet
  \<^verbatim>\<open>Path.exists()\<close> itself raises the \<open>OSError\<close> of the lookup, which is not
  \<open>FileNotFoundError\<close>.
\<close>

theorem non_record_array_type_error:
  "exists_path (Map.empty([''data.json''] \<mapsto> JsonFile (JArr [JInt 1]))) [''data.json'']
     = Inr True
   \<and> load_json_dataset (Map.empty([''data.json''] \<mapsto> JsonFile (JArr [JInt 1]))) [''data.json'']
       = Inl TypeError
   \<and> load_json_dataset
       (Map.empty([''data.json''] \<mapsto> JsonFile (JArr [JObj [(''a'', JInt (2 ^ 1024))]])))
       [''data.json'']
       = Inl OverflowError
   \<and> load_json_dataset (Map.empty([''a_name_of_300_characters.json''] \<mapsto> Refused ENAMETOOLONG))
       [''a_name_of_300_characters.json'']
       = Inl (OSError ENAMETOOLONG)"
  by code_simp

subsection \<open>The data key\<close>

text \<open>
  Claim C10. When the top level of the JSON input is an object with a \<open>data\<close> key, the
  loader works on the value of that key alone. When the value is an array, the input
  loads to what a file that holds the bare array loads to; when it is not an array,
  the loader raises the \<open>ValueError\<close> of a dataset that is not a list, whatever the
  other keys are. So two such inputs with the same value under \<open>data\<close> load to the same
  result, whatever their other keys hold.
\<close>

theorem data_key_only:
  assumes "stat fs p = Some (JsonFile (JObj items))"
      and "map_of items ''data'' = Some v"
  shows "(\<forall>records fs' p'. v = JArr records \<and> stat fs' p' = Some (JsonFile (JArr records))
            \<longrightarrow> load_json_dataset fs p = load_json_dataset fs' p')
     \<and> ((\<forall>records. v \<noteq> JArr records) \<longrightarrow>
          load_json_dataset fs p
            = Inl (ValueError
                ''JSON dataset must be a list of records or include a 'data' list''))
     \<and> (\<forall>items' fs' p'. stat fs' p' = Some (JsonFile (JObj items'))
            \<and> map_of items' ''data'' = Some v
            \<longrightarrow> load_json_dataset fs p = load_json_dataset fs' p')"
proof (intro conjI allI impI)
  fix records fs' p'
  assume "v = JArr records \<and> stat fs' p' = Some (JsonFile (JArr records))"
  then show "load_json_dataset fs p = load_json_dataset fs' p'"
    using load_wrapped [OF assms] load_bare [of fs' p' records] by simp
next
  assume "\<forall>records. v \<noteq> JArr records"
  then show "load_json_dataset fs p
      = Inl (ValueError ''JSON dataset must be a list of records or include a 'data' list'')"
    using load_wrapped [OF assms] by (cases v) simp_all
next
  fix items' fs' p'
  assume "stat fs' p' = Some (JsonFile (JObj items')) \<and> map_of items' ''data'' = Some v"
  then show "load_json_dataset fs p = load_json_dataset fs' p'"
    using load_wrapped [OF assms] load_wrapped [of fs' p' items' v] by simp
qed

theorem data_key_only_witness:
  "load_json_dataset
     (Map.empty([''a.json''] \<mapsto>
        JsonFile (JObj [(''data'', JArr [JObj [(''value'', JInt 1)]]), (''meta'', JStr ''x'')])))
     [''a.json'']
   = Inr \<lparr>index_len = 1,
          columns = [\<lparr>col_name = Key ''value'', col_dtype = Int64, col_values = [JInt 1]\<rparr>]\<rparr>
   \<and> load_json_dataset
     (Map.empty([''a.json''] \<mapsto>
        JsonFile (JObj [(''data'', JArr [JObj [(''value'', JInt 1)]]), (''meta'', JStr ''x'')])))
     [''a.json'']
   = load_json_dataset
     (Map.empty([''bare.json''] \<mapsto> JsonFile (JArr [JObj [(''value'', JInt 1)]])))
     [''bare.json'']
   \<and> load_json_dataset
     (Map.empty([''a.json''] \<mapsto>
        JsonFile (JObj [(''data'', JArr [JObj [(''value'', JInt 1)]]), (''meta'', JStr ''x'')])))
     [''a.json'']
   = load_json_dataset
     (Map.empty([''b.json''] \<mapsto>
        JsonFile (JObj [(''version'', JInt 2), (''data'', JArr [JObj [(''value'', JInt 1)]])])))
     [''b.json'']
   \<and> load_json_dataset
     (Map.empty([''c.json''] \<mapsto>
        JsonFile (JObj [(''data'', JStr ''none''), (''rows'', JArr [JObj [(''value'', JInt 1)]])])))
     [''c.json'']
   = Inl (ValueError ''JSON dataset must be a list of records or include a 'data' list'')"
proof -
  let ?records = "[JObj [(''value'', JInt 1)]]"
  let ?a = "[(''data'', JArr ?records), (''meta'', JStr ''x'')]"
  let ?b = "[(''version'', JInt 2), (''data'', JArr ?records)]"
  let ?c = "[(''data'', JStr ''none''), (''rows'', JArr ?records)]"
  let ?fsa = "Map.empty([''a.json''] \<mapsto> JsonFile (JObj ?a))"
  let ?fsb = "Map.empty([''b.json''] \<mapsto> JsonFile (JObj ?b))"
  let ?fsc = "Map.empty([''c.json''] \<mapsto> JsonFile (JObj ?c))"
  let ?bare = "Map.empty([''bare.json''] \<mapsto> JsonFile (JArr ?records))"
  have sa: "stat ?fsa [''a.json''] = Some (JsonFile (JObj ?a))"
    and sb: "stat ?fsb [''b.json''] = Some (JsonFile (JObj ?b))"
    and sc: "stat ?fsc [''c.json''] = Some (JsonFile (JObj ?c))"
    and s0: "stat ?bare [''bare.json''] = Some (JsonFile (JArr ?records))"
    by (simp_all add: stat_def)
  have da: "map_of ?a ''data'' = Some (JArr ?records)"
    and db: "map_of ?b ''data'' = Some (JArr ?records)"
    and dc: "map_of ?c ''data'' = Some (JStr ''none'')"
    by simp_all
  have bare: "load_json_dataset ?bare [''bare.json'']
      = Inr \<lparr>index_len = 1,
             columns = [\<lparr>col_name = Key ''value'', col_dtype = Int64, col_values = [JInt 1]\<rparr>]\<rparr>"
    by code_simp
  have e1: "load_json_dataset ?fsa [''a.json''] = load_json_dataset ?bare [''bare.json'']"
    using data_key_only [OF sa da] s0 by blast
  have e2: "load_json_dataset ?fsa [''a.json''] = load_json_dataset ?fsb [''b.json'']"
    using data_key_only [OF sa da] sb db by blast
  have e3: "load_json_dataset ?fsc [''c.json'']
      = Inl (ValueError ''JSON dataset must be a list of records or include a 'data' list'')"
    using data_key_only [OF sc dc] by blast
  from bare e1 e2 e3 show ?thesis
    by simp
qed

section \<open>Properties of the column classifier\<close>

lemmas classify_eval =
  numeric_columns_def categorical_columns_def select_dtypes_def is_number_def
  is_object_category_bool_def

lemma classified_by_name:
  assumes "distinct (map col_name (columns df))" and "s \<in> set (columns df)"
  shows "col_name s \<in> set (numeric_columns df) \<longleftrightarrow> is_number (col_dtype s)"
    and "col_name s \<in> set (categorical_columns df) \<longleftrightarrow> is_object_category_bool (col_dtype s)"
  using assms
  by (auto simp: numeric_columns_def categorical_columns_def select_dtypes_def
      distinct_map inj_on_def)

lemma number_not_categorical: "is_number dt \<Longrightarrow> \<not> is_object_category_bool dt"
  by (auto simp: is_number_def is_object_category_bool_def)

lemma classifier_disjoint:
  assumes "distinct (map col_name (columns df))"
  shows "set (numeric_columns df) \<inter> set (categorical_columns df) = {}"
proof (rule ccontr)
  assume "set (numeric_columns df) \<inter> set (categorical_columns df) \<noteq> {}"
  then obtain l where l: "l \<in> set (numeric_columns df)" "l \<in> set (categorical_columns df)"
    by blast
  from l(1) obtain s where s: "s \<in> set (columns df)" "col_name s = l"
    by (auto simp: numeric_columns_def select_dtypes_def)
  from l s have "is_number (col_dtype s)" "is_object_category_bool (col_dtype s)"
    using classified_by_name [OF assms s(1)] by simp_all
  then show False
    using number_not_categorical by blast
qed

text \<open>
  Claim C4, as the code has it. Each of the two sequences that the classifier returns
  keeps the column order of the Dataset (it is a subsequence of the column labels);
  when the labels are distinct, as they are in a loaded Dataset, no label is in both;
  a boolean column is in the categorical sequence; a column is classified by its dtype
  alone, so an object or category column is in the categorical sequence and an integer
  or float column in the numeric one whatever their values are; and a column whose
  dtype is in neither group, such as a datetime column, is in neither sequence.
\<close>

theorem classifier_partition:
  "subseq (numeric_columns df) (map col_name (columns df))
   \<and> subseq (categorical_columns df) (map col_name (columns df))
   \<and> (distinct (map col_name (columns df)) \<longrightarrow>
        set (numeric_columns df) \<inter> set (categorical_columns df) = {})
   \<and> (\<forall>s\<in>set (columns df). col_dtype s = Bool \<longrightarrow> col_name s \<in> set (categorical_columns df))
   \<and> (\<forall>s\<in>set (columns df). col_dtype s = Object \<or> col_dtype s = Category \<longrightarrow>
          col_name s \<in> set (categorical_columns df))
   \<and> (\<forall>s\<in>set (columns df). col_dtype s = Int64 \<or> col_dtype s = UInt64 \<or> col_dtype s = Float64
          \<longrightarrow> col_name s \<in> set (numeric_columns df))
   \<and> (distinct (map col_name (columns df)) \<longrightarrow>
        (\<forall>s\<in>set (columns df). col_dtype s = Datetime64 \<longrightarrow>
           col_name s \<notin> set (numeric_columns df) \<and> col_name s \<notin> set (categorical_columns df)))"
proof -
  have s1: "subseq (numeric_columns df) (map col_name (columns df))"
    by (simp add: numeric_columns_def select_dtypes_def subseq_map)
  have s2: "subseq (categorical_columns df) (map col_name (columns df))"
    by (simp add: categorical_columns_def select_dtypes_def subseq_map)
  have b: "\<forall>s\<in>set (columns df). col_dtype s = Bool \<longrightarrow> col_name s \<in> set (categorical_columns df)"
    by (auto simp: classify_eval)
  have o: "\<forall>s\<in>set (columns df). col_dtype s = Object \<or> col_dtype s = Category \<longrightarrow>
          col_name s \<in> set (categorical_columns df)"
    by (auto simp: classify_eval)
  have n: "\<forall>s\<in>set (columns df). col_dtype s = Int64 \<or> col_dtype s = UInt64 \<or> col_dtype s = Float64
          \<longrightarrow> col_name s \<in> set (numeric_columns df)"
    by (auto simp: classify_eval)
  have dt: "\<forall>s\<in>set (columns df). col_dtype s = Datetime64 \<longrightarrow>
           col_name s \<notin> set (numeric_columns df) \<and> col_name s \<notin> set (categorical_columns df)"
    if "distinct (map col_name (columns df))"
    using classified_by_name [OF that]
    by (auto simp: is_number_def is_object_category_bool_def)
  show ?thesis
    using s1 s2 classifier_disjoint b o n dt by blast
qed

theorem classifier_partition_witness:
  "set (numeric_columns
     \<lparr>index_len = 1,
      columns =
        [\<lparr>col_name = Key ''value'', col_dtype = Int64, col_values = [JInt 1]\<rparr>,
         \<lparr>col_name = Key ''flag'', col_dtype = Bool, col_values = [JBool True]\<rparr>,
         \<lparr>col_name = Key ''when'', col_dtype = Datetime64, col_values = [JStr ''x'']\<rparr>]\<rparr>)
   \<inter> set (categorical_columns
     \<lparr>index_len = 1,
      columns =
        [\<lparr>col_name = Key ''value'', col_dtype = Int64, col_values = [JInt 1]\<rparr>,
         \<lparr>col_name = Key ''flag'', col_dtype = Bool, col_values = [JBool True]\<rparr>,
         \<lparr>col_name = Key ''when'', col_dtype = Datetime64, col_values = [JStr ''x'']\<rparr>]\<rparr>) = {}
   \<and> Key ''flag'' \<in> set (categorical_columns
     \<lparr>index_len = 1,
      columns =
        [\<lparr>col_name = Key ''value'', col_dtype = Int64, col_values = [JInt 1]\<rparr>,
         \<lparr>col_name = Key ''flag'', col_dtype = Bool, col_values = [JBool True]\<rparr>,
         \<lparr>col_name = Key ''when'', col_dtype = Datetime64, col_values = [JStr ''x'']\<rparr>]\<rparr>)
   \<and> Key ''when'' \<notin> set (categorical_columns
     \<lparr>index_len = 1,
      columns =
        [\<lparr>col_name = Key ''value'', col_dtype = Int64, col_values = [JInt 1]\<rparr>,
         \<lparr>col_name = Key ''flag'', col_dtype = Bool, col_values = [JBool True]\<rparr>,
         \<lparr>col_name = Key ''when'', col_dtype = Datetime64, col_values = [JStr ''x'']\<rparr>]\<rparr>)"
proof -
  let ?num = "\<lparr>col_name = Key ''value'', col_dtype = Int64, col_values = [JInt 1]\<rparr>"
  let ?flag = "\<lparr>col_name = Key ''flag'', col_dtype = Bool, col_values = [JBool True]\<rparr>"
  let ?when = "\<lparr>col_name = Key ''when'', col_dtype = Datetime64, col_values = [JStr ''x'']\<rparr>"
  let ?df = "\<lparr>index_len = 1, columns = [?num, ?flag, ?when]\<rparr>"
  have d: "distinct (map col_name (columns ?df))" by simp
  have m: "?flag \<in> set (columns ?df)" "?when \<in> set (columns ?df)" by simp_all
  have t: "col_dtype ?flag = Bool" "col_dtype ?when = Datetime64" "col_name ?flag = Key ''flag''"
    "col_name ?when = Key ''when''" by simp_all
  from classifier_partition [of ?df] d m t show ?thesis
    by metis
qed

text \<open>
  Claim C4 as stated fails for its own example, a column whose values are all missing:
  loaded from JSON, a column of nulls has dtype object and is in the categorical
  sequence.
\<close>

theorem all_missing_column_is_categorical:
  "load_json_dataset
     (Map.empty([''data.json''] \<mapsto>
        JsonFile (JArr [JObj [(''a'', JNull), (''b'', JInt 1)], JObj [(''a'', JNull), (''b'', JInt 2)]])))
     [''data.json'']
   = Inr \<lparr>index_len = 2,
          columns =
            [\<lparr>col_name = Key ''a'', col_dtype = Object, col_values = [JNull, JNull]\<rparr>,
             \<lparr>col_name = Key ''b'', col_dtype = Int64, col_values = [JInt 1, JInt 2]\<rparr>]\<rparr>
   \<and> isna JNull
   \<and> categorical_columns
       \<lparr>index_len = 2,
        columns =
          [\<lparr>col_name = Key ''a'', col_dtype = Object, col_values = [JNull, JNull]\<rparr>,
           \<lparr>col_name = Key ''b'', col_dtype = Int64, col_values = [JInt 1, JInt 2]\<rparr>]\<rparr>
     = [Key ''a'']"
  by code_simp

section \<open>Properties of the page sequence\<close>

lemma find_distinct_name:
  "distinct (map col_name cols) \<Longrightarrow> s \<in> set cols \<Longrightarrow>
     find (\<lambda>x. col_name x = col_name s) cols = Some s"
  by (induction cols) (auto simp: rev_image_eqI)

lemma getitem_column:
  "distinct (map col_name (columns df)) \<Longrightarrow> s \<in> set (columns df) \<Longrightarrow>
     getitem df (col_name s) = Inr s"
  by (simp add: getitem_def find_distinct_name)

lemma and_then_None [simp]: "and_then (None, pdf) f = f pdf"
  by (simp add: and_then_def)

lemma and_then_Some [simp]: "and_then (Some e, pdf) f = (Some e, pdf)"
  by (simp add: and_then_def)

lemma render_page_drawn:
  "draw plt pg data = None \<Longrightarrow> render_page plt pdf pg data = (None, pdf @ [pg])"
  by (simp add: render_page_def)

lemma for_each_numeric:
  assumes "distinct (map col_name (columns df))"
  shows "set ss \<subseteq> set (columns df) \<Longrightarrow>
     \<forall>s\<in>set ss. dropna (col_values s) \<noteq> [] \<longrightarrow>
        draw plt (NumericPage (col_name s)) [dropna (col_values s)] = None \<Longrightarrow>
     for_each (\<lambda>pdf column. plot_numeric_column plt pdf df column) pdf (map col_name ss) =
       (None, pdf @ map NumericPage
                      (map col_name (filter (\<lambda>s. dropna (col_values s) \<noteq> []) ss)))"
proof (induction ss arbitrary: pdf)
  case Nil
  then show ?case by simp
next
  case (Cons s ss)
  then have "getitem df (col_name s) = Inr s"
    using assms by (simp add: getitem_column)
  with Cons show ?case
    by (simp add: plot_numeric_column_def render_page_drawn)
qed

lemma for_each_categorical:
  assumes "distinct (map col_name (columns df))"
  shows "set ss \<subseteq> set (columns df) \<Longrightarrow>
     \<forall>s\<in>set ss. dropna (col_values s) \<noteq> [] \<longrightarrow>
        draw plt (CategoricalPage (col_name s)) [dropna (col_values s)] = None \<Longrightarrow>
     for_each (\<lambda>pdf column. plot_categorical_column plt pdf df column) pdf (map col_name ss) =
       (None, pdf @ map CategoricalPage
                      (map col_name (filter (\<lambda>s. dropna (col_values s) \<noteq> []) ss)))"
proof (induction ss arbitrary: pdf)
  case Nil
  then show ?case by simp
next
  case (Cons s ss)
  then have "getitem df (col_name s) = Inr s"
    using assms by (simp add: getitem_column)
  with Cons show ?case
    by (simp add: plot_categorical_column_def render_page_drawn)
qed

lemma traverse_getitem:
  assumes "distinct (map col_name (columns df))"
  shows "set ss \<subseteq> set (columns df) \<Longrightarrow> traverse (getitem df) (map col_name ss) = Inr ss"
  using assms by (induction ss) (simp_all add: getitem_column)

lemma heatmap_pages:
  assumes "distinct (map col_name (columns df))" and "set ss \<subseteq> set (columns df)"
    and "2 \<le> length ss \<longrightarrow>
           draw plt (CorrelationPage (map col_name ss)) (map col_values ss) = None"
  shows "plot_correlation_heatmap plt pdf df (map col_name ss) =
     (None, pdf @ (if 2 \<le> length ss then [CorrelationPage (map col_name ss)] else []))"
  using assms by (simp add: plot_correlation_heatmap_def traverse_getitem render_page_drawn)

lemma write_pages_eq:
  assumes "distinct (map col_name (columns df))"
    and "draw plt (TitlePage (resolved_title config) now (path_name (json_path config))
           (index_len df) (length (columns df))) [] = None"
    and "\<forall>s\<in>set (columns df). is_number (col_dtype s) \<and> dropna (col_values s) \<noteq> [] \<longrightarrow>
           draw plt (NumericPage (col_name s)) [dropna (col_values s)] = None"
    and "2 \<le> length (numeric_columns df) \<longrightarrow>
           draw plt (CorrelationPage (numeric_columns df))
             (map col_values (columns (select_dtypes is_number df))) = None"
    and "\<forall>s\<in>set (columns df).
           is_object_category_bool (col_dtype s) \<and> dropna (col_values s) \<noteq> [] \<longrightarrow>
           draw plt (CategoricalPage (col_name s)) [dropna (col_values s)] = None"
    and "numeric_columns df = [] \<and> categorical_columns df = [] \<longrightarrow>
           draw plt FallbackPage [] = None"
  shows "write_pages plt config df now (numeric_columns df) (categorical_columns df) =
    (None,
     [TitlePage (resolved_title config) now (path_name (json_path config)) (index_len df)
        (length (columns df))]
     @ map NumericPage (map col_name
         (filter (\<lambda>s. dropna (col_values s) \<noteq> [])
            (filter (\<lambda>s. is_number (col_dtype s)) (columns df))))
     @ (if 2 \<le> length (numeric_columns df) then [CorrelationPage (numeric_columns df)] else [])
     @ map CategoricalPage (map col_name
         (filter (\<lambda>s. dropna (col_values s) \<noteq> [])
            (filter (\<lambda>s. is_object_category_bool (col_dtype s)) (columns df))))
     @ (if numeric_columns df = [] \<and> categorical_columns df = [] then [FallbackPage] else []))"
proof -
  let ?ns = "filter (\<lambda>s. is_number (col_dtype s)) (columns df)"
  let ?cs = "filter (\<lambda>s. is_object_category_bool (col_dtype s)) (columns df)"
  have n: "numeric_columns df = map col_name ?ns"
    by (simp add: numeric_columns_def select_dtypes_def)
  have c: "categorical_columns df = map col_name ?cs"
    by (simp add: categorical_columns_def select_dtypes_def)
  have sub: "set ?ns \<subseteq> set (columns df)" "set ?cs \<subseteq> set (columns df)"
    by auto
  have dn: "\<forall>s\<in>set ?ns. dropna (col_values s) \<noteq> [] \<longrightarrow>
        draw plt (NumericPage (col_name s)) [dropna (col_values s)] = None"
    using assms(3) by simp
  have dc: "\<forall>s\<in>set ?cs. dropna (col_values s) \<noteq> [] \<longrightarrow>
        draw plt (CategoricalPage (col_name s)) [dropna (col_values s)] = None"
    using assms(5) by simp
  have dh: "2 \<le> length ?ns \<longrightarrow>
        draw plt (CorrelationPage (map col_name ?ns)) (map col_values ?ns) = None"
    using assms(4) by (simp add: numeric_columns_def select_dtypes_def)
  have df: "?ns = [] \<and> ?cs = [] \<longrightarrow> draw plt FallbackPage [] = None"
    using assms(6) by (simp add: n c)
  note fe = for_each_numeric [OF assms(1) sub(1) dn] for_each_categorical [OF assms(1) sub(2) dc]
    heatmap_pages [OF assms(1) sub(1) dh]
  have t: "add_title_page plt [] config df now =
      (None, [TitlePage (resolved_title config) now (path_name (json_path config))
                (index_len df) (length (columns df))])"
    using assms(2) by (simp add: add_title_page_def render_page_def)
  show ?thesis
    unfolding n c write_pages_def t using df
    by (auto simp: fe filter_empty_conv render_page_drawn)
qed

text \<open>
  The dtype of a loaded column is one that the classifier takes, so a Dataset that the
  loader returns has a numeric or a categorical column: the fallback page is for
  frames that come from elsewhere.
\<close>

lemma inferred_dtype_classified:
  "is_number (inferred_dtype s) \<or> is_object_category_bool (inferred_dtype s)"
  by (simp add: inferred_dtype_def is_number_def is_object_category_bool_def)

lemma maybe_convert_objects_classified:
  "maybe_convert_objects arr = Inr (dt, vs) \<Longrightarrow> is_number dt \<or> is_object_category_bool dt"
  using inferred_dtype_classified
  by (auto simp: maybe_convert_objects_def Let_def is_number_def split: sum.splits if_splits)

lemma finalize_column_classified:
  "finalize_column arr = Inr s \<Longrightarrow>
     is_number (col_dtype s) \<or> is_object_category_bool (col_dtype s)"
  by (auto simp: finalize_column_def split: sum.splits dest: maybe_convert_objects_classified)

lemma from_records_classified:
  assumes "from_records data = Inr df" and "s \<in> set (columns df)"
  shows "is_number (col_dtype s) \<or> is_object_category_bool (col_dtype s)"
proof -
  from assms(1) obtain arrays where "traverse finalize_column arrays = Inr (columns df)"
    by (auto simp: from_records_def split: sum.splits)
  then have "list_all2 (\<lambda>arr s. finalize_column arr = Inr s) arrays (columns df)"
    by (simp add: traverse_Inr)
  moreover from assms(2) obtain i where "i < length (columns df)" "columns df ! i = s"
    by (auto simp: in_set_conv_nth)
  ultimately have "finalize_column (arrays ! i) = Inr s"
    by (auto dest: list_all2_nthD2)
  then show ?thesis
    by (rule finalize_column_classified)
qed

lemma loaded_never_fallback:
  assumes "load_json_dataset fs p = Inr df"
  shows "numeric_columns df \<noteq> [] \<or> categorical_columns df \<noteq> []"
proof -
  from assms obtain records where f: "from_records records = Inr df"
    by (auto simp: load_json_dataset_def split: sum.splits bool.splits json.splits if_splits)
  from load_nonempty [OF assms] obtain s where s: "s \<in> set (columns df)"
    by (cases "columns df") auto
  from from_records_classified [OF f s] s show ?thesis
    by (auto simp: numeric_columns_def categorical_columns_def select_dtypes_def
        filter_empty_conv)
qed

text \<open>
  Claim C1, as the code has it. The labels of a Dataset's columns are distinct. Provided
  that no call into the plotting library raises for a page of the report, the
  following holds. When the Dataset has at least one numeric and at least one
  categorical column, the pages of the document are, in this order: the title page; one
  page for each numeric column that keeps a value when its missing values are dropped,
  in column order; the correlation page if and only if there are at least two numeric
  columns; one page for each categorical column that keeps a value when its missing
  values are dropped, in column order. When it has neither a numeric nor a categorical
  column, the pages are the title page and the fallback page. The fallback page is in
  the document only in that case.
\<close>

theorem report_page_order:
  assumes "distinct (map col_name (columns df))"
    and "draw plt (TitlePage (resolved_title config) now (path_name (json_path config))
           (index_len df) (length (columns df))) [] = None"
    and "\<forall>s\<in>set (columns df).
           col_name s \<in> set (numeric_columns df) \<and> dropna (col_values s) \<noteq> [] \<longrightarrow>
           draw plt (NumericPage (col_name s)) [dropna (col_values s)] = None"
    and "2 \<le> length (numeric_columns df) \<longrightarrow>
           draw plt (CorrelationPage (numeric_columns df))
             (map col_values (columns (select_dtypes is_number df))) = None"
    and "\<forall>s\<in>set (columns df).
           col_name s \<in> set (categorical_columns df) \<and> dropna (col_values s) \<noteq> [] \<longrightarrow>
           draw plt (CategoricalPage (col_name s)) [dropna (col_values s)] = None"
    and "numeric_columns df = [] \<and> categorical_columns df = [] \<longrightarrow>
           draw plt FallbackPage [] = None"
  shows
    "(numeric_columns df \<noteq> [] \<and> categorical_columns df \<noteq> [] \<longrightarrow>
        write_pages plt config df now (numeric_columns df) (categorical_columns df) =
          (None,
           [TitlePage (resolved_title config) now (path_name (json_path config))
              (index_len df) (length (columns df))]
           @ map NumericPage (map col_name
               (filter (\<lambda>s. col_name s \<in> set (numeric_columns df) \<and> dropna (col_values s) \<noteq> [])
                  (columns df)))
           @ (if 2 \<le> length (numeric_columns df)
              then [CorrelationPage (numeric_columns df)] else [])
           @ map CategoricalPage (map col_name
               (filter (\<lambda>s. col_name s \<in> set (categorical_columns df) \<and> dropna (col_values s) \<noteq> [])
                  (columns df)))))
     \<and> (numeric_columns df = [] \<and> categorical_columns df = [] \<longrightarrow>
        write_pages plt config df now (numeric_columns df) (categorical_columns df) =
          (None,
           [TitlePage (resolved_title config) now (path_name (json_path config))
              (index_len df) (length (columns df)),
            FallbackPage]))
     \<and> (FallbackPage \<in> set (snd (write_pages plt config df now (numeric_columns df)
                                   (categorical_columns df)))
          \<longleftrightarrow> numeric_columns df = [] \<and> categorical_columns df = [])"
proof -
  have f1: "filter (\<lambda>s. col_name s \<in> set (numeric_columns df) \<and> dropna (col_values s) \<noteq> [])
              (columns df)
            = filter (\<lambda>s. dropna (col_values s) \<noteq> [])
                (filter (\<lambda>s. is_number (col_dtype s)) (columns df))"
    using classified_by_name(1) [OF assms(1)] by (auto intro: filter_cong)
  have f2: "filter (\<lambda>s. col_name s \<in> set (categorical_columns df) \<and> dropna (col_values s) \<noteq> [])
              (columns df)
            = filter (\<lambda>s. dropna (col_values s) \<noteq> [])
                (filter (\<lambda>s. is_object_category_bool (col_dtype s)) (columns df))"
    using classified_by_name(2) [OF assms(1)] by (auto intro: filter_cong)
  have e1: "numeric_columns df = [] \<Longrightarrow>
      filter (\<lambda>s. dropna (col_values s) \<noteq> [])
        (filter (\<lambda>s. is_number (col_dtype s)) (columns df)) = []"
    by (simp add: numeric_columns_def select_dtypes_def)
  have e2: "categorical_columns df = [] \<Longrightarrow>
      filter (\<lambda>s. dropna (col_values s) \<noteq> [])
        (filter (\<lambda>s. is_object_category_bool (col_dtype s)) (columns df)) = []"
    by (simp add: categorical_columns_def select_dtypes_def)
  have dn: "\<forall>s\<in>set (columns df). is_number (col_dtype s) \<and> dropna (col_values s) \<noteq> [] \<longrightarrow>
           draw plt (NumericPage (col_name s)) [dropna (col_values s)] = None"
    using assms(3) classified_by_name(1) [OF assms(1)] by blast
  have dc: "\<forall>s\<in>set (columns df).
           is_object_category_bool (col_dtype s) \<and> dropna (col_values s) \<noteq> [] \<longrightarrow>
           draw plt (CategoricalPage (col_name s)) [dropna (col_values s)] = None"
    using assms(5) classified_by_name(2) [OF assms(1)] by blast
  show ?thesis
    unfolding f1 f2 write_pages_eq [OF assms(1,2) dn assms(4) dc assms(6)] using e1 e2 by auto
qed

theorem report_page_order_witness:
  "write_pages mathtext_plotting
     \<lparr>json_path = [''sales_data.json''], report_dir = [''Reports''], title = Some ''Test Report''\<rparr>
     \<lparr>index_len = 2,
      columns =
        [\<lparr>col_name = Key ''value'', col_dtype = Int64, col_values = [JInt 1, JInt 2]\<rparr>,
         \<lparr>col_name = Key ''gap'', col_dtype = Float64, col_values = [JFloat NaN, JFloat NaN]\<rparr>,
         \<lparr>col_name = Key ''category'', col_dtype = Object, col_values = [JStr ''A'', JNull]\<rparr>,
         \<lparr>col_name = Key ''note'', col_dtype = Object, col_values = [JNull, JNull]\<rparr>]\<rparr>
     \<lparr>year = 2024, month = 1, day = 2, hour = 3, minute = 4, second = 5, microsecond = 6\<rparr>
     [Key ''value'', Key ''gap''] [Key ''category'', Key ''note'']
   = (None,
      [TitlePage ''Test Report''
         \<lparr>year = 2024, month = 1, day = 2, hour = 3, minute = 4, second = 5, microsecond = 6\<rparr>
         ''sales_data.json'' 2 4,
       NumericPage (Key ''value''),
       CorrelationPage [Key ''value'', Key ''gap''],
       CategoricalPage (Key ''category'')])
   \<and> write_pages mathtext_plotting
     \<lparr>json_path = [''sales_data.json''], report_dir = [''Reports''], title = Some ''Test Report''\<rparr>
     \<lparr>index_len = 1,
      columns = [\<lparr>col_name = Key ''when'', col_dtype = Datetime64, col_values = [JStr ''x'']\<rparr>]\<rparr>
     \<lparr>year = 2024, month = 1, day = 2, hour = 3, minute = 4, second = 5, microsecond = 6\<rparr>
     [] []
   = (None,
      [TitlePage ''Test Report''
         \<lparr>year = 2024, month = 1, day = 2, hour = 3, minute = 4, second = 5, microsecond = 6\<rparr>
         ''sales_data.json'' 1 1,
       FallbackPage])"
proof -
  let ?config = "\<lparr>json_path = [''sales_data.json''], report_dir = [''Reports''],
                   title = Some ''Test Report''\<rparr>"
  let ?now = "\<lparr>year = 2024, month = 1, day = 2, hour = 3, minute = 4, second = 5,
                microsecond = 6\<rparr>"
  let ?df = "\<lparr>index_len = 2,
      columns =
        [\<lparr>col_name = Key ''value'', col_dtype = Int64, col_values = [JInt 1, JInt 2]\<rparr>,
         \<lparr>col_name = Key ''gap'', col_dtype = Float64, col_values = [JFloat NaN, JFloat NaN]\<rparr>,
         \<lparr>col_name = Key ''category'', col_dtype = Object, col_values = [JStr ''A'', JNull]\<rparr>,
         \<lparr>col_name = Key ''note'', col_dtype = Object, col_values = [JNull, JNull]\<rparr>]\<rparr>"
  let ?df' = "\<lparr>index_len = 1,
      columns = [\<lparr>col_name = Key ''when'', col_dtype = Datetime64, col_values = [JStr ''x'']\<rparr>]\<rparr>"
  have d: "distinct (map col_name (columns ?df))" by simp
  have n: "numeric_columns ?df = [Key ''value'', Key ''gap'']"
    by (simp add: classify_eval)
  have c: "categorical_columns ?df = [Key ''category'', Key ''note'']"
    by (simp add: classify_eval)
  have d': "distinct (map col_name (columns ?df'))" by simp
  have n': "numeric_columns ?df' = []"
    by (simp add: classify_eval)
  have c': "categorical_columns ?df' = []"
    by (simp add: classify_eval)
  have t: "resolved_title ?config = ''Test Report''"
    by (simp add: resolved_title_def)
  have p: "path_name (json_path ?config) = ''sales_data.json''"
    by (simp add: path_name_def)
  have a2: "draw mathtext_plotting (TitlePage (resolved_title ?config) ?now
      (path_name (json_path ?config)) k m) [] = None" for k m
    unfolding t p by (simp add: mathtext_plotting_def)
  have a3: "\<forall>s\<in>set (columns ?df).
      col_name s \<in> set (numeric_columns ?df) \<and> dropna (col_values s) \<noteq> [] \<longrightarrow>
      draw mathtext_plotting (NumericPage (col_name s)) [dropna (col_values s)] = None"
    by (simp add: mathtext_plotting_def)
  have a4: "2 \<le> length (numeric_columns ?df) \<longrightarrow>
      draw mathtext_plotting (CorrelationPage (numeric_columns ?df))
        (map col_values (columns (select_dtypes is_number ?df))) = None"
    by (simp add: n mathtext_plotting_def)
  have a5: "\<forall>s\<in>set (columns ?df).
      col_name s \<in> set (categorical_columns ?df) \<and> dropna (col_values s) \<noteq> [] \<longrightarrow>
      draw mathtext_plotting (CategoricalPage (col_name s)) [dropna (col_values s)] = None"
    by (simp add: mathtext_plotting_def)
  have a6: "numeric_columns ?df = [] \<and> categorical_columns ?df = [] \<longrightarrow>
      draw mathtext_plotting FallbackPage [] = None"
    by (simp add: mathtext_plotting_def)
  have b3: "\<forall>s\<in>set (columns ?df').
      col_name s \<in> set (numeric_columns ?df') \<and> dropna (col_values s) \<noteq> [] \<longrightarrow>
      draw mathtext_plotting (NumericPage (col_name s)) [dropna (col_values s)] = None"
    by (simp add: mathtext_plotting_def)
  have b4: "2 \<le> length (numeric_columns ?df') \<longrightarrow>
      draw mathtext_plotting (CorrelationPage (numeric_columns ?df'))
        (map col_values (columns (select_dtypes is_number ?df'))) = None"
    unfolding n' by simp
  have b5: "\<forall>s\<in>set (columns ?df').
      col_name s \<in> set (categorical_columns ?df') \<and> dropna (col_values s) \<noteq> [] \<longrightarrow>
      draw mathtext_plotting (CategoricalPage (col_name s)) [dropna (col_values s)] = None"
    by (simp add: mathtext_plotting_def)
  have b6: "numeric_columns ?df' = [] \<and> categorical_columns ?df' = [] \<longrightarrow>
      draw mathtext_plotting FallbackPage [] = None"
    by (simp add: mathtext_plotting_def)
  show ?thesis
    using report_page_order [OF d a2 a3 a4 a5 a6] report_page_order [OF d' a2 b3 b4 b5 b6]
    unfolding n c n' c' t p
    by (simp add: dropna_def isna_def)
qed

text \<open>
  Claim C1 as stated fails when a plotting call raises. The dataset
  \<^verbatim>\<open>[{"$x_$": 1, "c": "a"}]\<close> has one numeric and one categorical column; the title page is
  written, then the page of the numeric column raises \<open>ValueError\<close> on its label, the
  generator passes the exception on, and the document that it leaves holds the title
  page alone.
\<close>

theorem plotting_failure_ends_report:
  "load_json_dataset
     (Map.empty([''d.json''] \<mapsto> JsonFile (JArr [JObj [(''$x_$'', JInt 1), (''c'', JStr ''a'')]])))
     [''d.json'']
   = Inr \<lparr>index_len = 1,
          columns =
            [\<lparr>col_name = Key ''$x_$'', col_dtype = Int64, col_values = [JInt 1]\<rparr>,
             \<lparr>col_name = Key ''c'', col_dtype = Object, col_values = [JStr ''a'']\<rparr>]\<rparr>
   \<and> numeric_columns
       \<lparr>index_len = 1,
        columns =
          [\<lparr>col_name = Key ''$x_$'', col_dtype = Int64, col_values = [JInt 1]\<rparr>,
           \<lparr>col_name = Key ''c'', col_dtype = Object, col_values = [JStr ''a'']\<rparr>]\<rparr>
     = [Key ''$x_$'']
   \<and> categorical_columns
       \<lparr>index_len = 1,
        columns =
          [\<lparr>col_name = Key ''$x_$'', col_dtype = Int64, col_values = [JInt 1]\<rparr>,
           \<lparr>col_name = Key ''c'', col_dtype = Object, col_values = [JStr ''a'']\<rparr>]\<rparr>
     = [Key ''c'']
   \<and> fst (generate_pdf_report mathtext_plotting
       \<lparr>json_path = [''d.json''], report_dir = [''Reports''], title = None\<rparr>
       \<lparr>year = 2024, month = 1, day = 2, hour = 3, minute = 4, second = 5, microsecond = 6\<rparr>
       \<lparr>year = 2024, month = 1, day = 2, hour = 3, minute = 4, second = 5, microsecond = 7\<rparr>
       (Map.empty([''d.json''] \<mapsto>
          JsonFile (JArr [JObj [(''$x_$'', JInt 1), (''c'', JStr ''a'')]]))))
     = Inl (ValueError ''mathtext'')
   \<and> snd (generate_pdf_report mathtext_plotting
       \<lparr>json_path = [''d.json''], report_dir = [''Reports''], title = None\<rparr>
       \<lparr>year = 2024, month = 1, day = 2, hour = 3, minute = 4, second = 5, microsecond = 6\<rparr>
       \<lparr>year = 2024, month = 1, day = 2, hour = 3, minute = 4, second = 5, microsecond = 7\<rparr>
       (Map.empty([''d.json''] \<mapsto>
          JsonFile (JArr [JObj [(''$x_$'', JInt 1), (''c'', JStr ''a'')]]))))
       [''Reports'', ''report_20240102_030405.pdf'']
     = Some (PdfFile
         [TitlePage ''Data Report: D''
            \<lparr>year = 2024, month = 1, day = 2, hour = 3, minute = 4, second = 5, microsecond = 7\<rparr>
            ''d.json'' 1 2])"
  by code_simp

section \<open>Properties of the report assembler\<close>

text \<open>
  Claim C8. When the loader fails, \<open>generate_pdf_report\<close> fails with the same exception
  and leaves the file system as it found it: no directory is created and no file is
  opened or written.
\<close>

theorem loader_failure_propagates:
  "load_json_dataset fs (json_path config) = Inl e \<Longrightarrow>
     generate_pdf_report plt config now now_title fs = (Inl e, fs)"
  by (simp add: generate_pdf_report_def)

theorem loader_failure_propagates_witness:
  "load_json_dataset (Map.empty([''invalid.json''] \<mapsto> JsonFile (JObj [(''not'', JStr ''a list'')])))
       [''invalid.json'']
     = Inl (ValueError ''JSON dataset must be a list of records or include a 'data' list'')
   \<and> generate_pdf_report mathtext_plotting
       \<lparr>json_path = [''invalid.json''], report_dir = [''Reports''], title = None\<rparr>
       \<lparr>year = 2024, month = 1, day = 2, hour = 3, minute = 4, second = 5, microsecond = 6\<rparr>
       \<lparr>year = 2024, month = 1, day = 2, hour = 3, minute = 4, second = 5, microsecond = 7\<rparr>
       (Map.empty([''invalid.json''] \<mapsto> JsonFile (JObj [(''not'', JStr ''a list'')])))
     = (Inl (ValueError ''JSON dataset must be a list of records or include a 'data' list''),
        Map.empty([''invalid.json''] \<mapsto> JsonFile (JObj [(''not'', JStr ''a list'')])))"
proof -
  have h: "load_json_dataset
        (Map.empty([''invalid.json''] \<mapsto> JsonFile (JObj [(''not'', JStr ''a list'')])))
        (json_path \<lparr>json_path = [''invalid.json''], report_dir = [''Reports''], title = None\<rparr>)
      = Inl (ValueError ''JSON dataset must be a list of records or include a 'data' list'')"
    by (simp add: load_eval)
  show ?thesis
    using h loader_failure_propagates [OF h, of mathtext_plotting] by simp
qed

subsection \<open>The file name of the report\<close>

lemma ten_cases:
  "(k::nat) < 10 \<Longrightarrow> k = 0 \<or> k = 1 \<or> k = 2 \<or> k = 3 \<or> k = 4 \<or> k = 5 \<or> k = 6 \<or> k = 7 \<or> k = 8 \<or> k = 9"
  by (simp add: numeral_eq_Suc less_Suc_eq) 

lemma digit_code: "k < 10 \<Longrightarrow> (of_char (''0123456789'' ! k) :: nat) = 48 + k"
  by (drule ten_cases) (elim disjE; simp)

lemma digit_char_inj: "digit_char a = digit_char b \<Longrightarrow> a mod 10 = b mod 10"
proof -
  assume "digit_char a = digit_char b"
  then have "(of_char (digit_char a) :: nat) = of_char (digit_char b)" by simp
  then show ?thesis by (simp add: digit_char_def digit_code)
qed

lemma digit_char_is_digit: "digit_char n \<in> set ''0123456789''"
  unfolding digit_char_def by (rule nth_mem) simp

lemma div_mod_10_eq: "(x::nat) div 10 = y div 10 \<Longrightarrow> x mod 10 = y mod 10 \<Longrightarrow> x = y"
  by (metis div_mult_mod_eq)

lemma pad2_inj:
  assumes "pad2 a = pad2 b" and "a < 100" and "b < 100"
  shows "a = b"
proof -
  from assms(1) have c: "digit_char (a div 10) = digit_char (b div 10)"
    "digit_char a = digit_char b"
    by (simp_all add: pad2_def)
  have m1: "(a div 10) mod 10 = (b div 10) mod 10"
    using c(1) by (rule digit_char_inj)
  have m0: "a mod 10 = b mod 10"
    using c(2) by (rule digit_char_inj)
  from assms(2,3) have "a div 10 < 10" "b div 10 < 10" by simp_all
  with m1 have "a div 10 = b div 10" by simp
  then show ?thesis using m0 by (rule div_mod_10_eq)
qed

lemma pad4_inj:
  assumes "pad4 a = pad4 b" and "a < 10000" and "b < 10000"
  shows "a = b"
proof -
  from assms(1) have c: "digit_char (a div 1000) = digit_char (b div 1000)"
    "digit_char (a div 100) = digit_char (b div 100)"
    "digit_char (a div 10) = digit_char (b div 10)"
    "digit_char a = digit_char b"
    by (simp_all add: pad4_def)
  have m3: "(a div 1000) mod 10 = (b div 1000) mod 10"
    using c(1) by (rule digit_char_inj)
  have m2: "(a div 100) mod 10 = (b div 100) mod 10"
    using c(2) by (rule digit_char_inj)
  have m1: "(a div 10) mod 10 = (b div 10) mod 10"
    using c(3) by (rule digit_char_inj)
  have m0: "a mod 10 = b mod 10"
    using c(4) by (rule digit_char_inj)
  have d3: "x div 100 div 10 = x div 1000" and d2: "x div 10 div 10 = x div 100" for x :: nat
    by (simp_all add: div_mult2_eq [symmetric])
  from assms(2,3) have "a div 1000 < 10" "b div 1000 < 10" by simp_all
  with m3 have "a div 1000 = b div 1000" by simp
  then have "a div 100 div 10 = b div 100 div 10" by (simp only: d3)
  then have "a div 100 = b div 100" using m2 by (rule div_mod_10_eq)
  then have "a div 10 div 10 = b div 10 div 10" by (simp only: d2)
  then have "a div 10 = b div 10" using m1 by (rule div_mod_10_eq)
  then show ?thesis using m0 by (rule div_mod_10_eq)
qed

lemma length_pad [simp]: "length (pad2 n) = 2" "length (pad4 n) = 4"
  by (simp_all add: pad2_def pad4_def)

lemma all_digits_pad: "all_digits (pad2 n)" "all_digits (pad4 n)"
  using digit_char_is_digit by (simp_all add: all_digits_def pad2_def pad4_def)

lemma all_digits_append: "all_digits (xs @ ys) \<longleftrightarrow> all_digits xs \<and> all_digits ys"
  by (simp add: all_digits_def)

lemma strftime_parts:
  "strftime a = strftime b \<longleftrightarrow>
     pad4 (year a) = pad4 (year b) \<and> pad2 (month a) = pad2 (month b)
     \<and> pad2 (day a) = pad2 (day b) \<and> pad2 (hour a) = pad2 (hour b)
     \<and> pad2 (minute a) = pad2 (minute b) \<and> pad2 (second a) = pad2 (second b)"
  by (simp add: strftime_def)

lemma strftime_inj:
  assumes "valid_datetime a" and "valid_datetime b" and "strftime a = strftime b"
  shows "same_second a b"
proof -
  from assms(3) have p: "pad4 (year a) = pad4 (year b)" "pad2 (month a) = pad2 (month b)"
    "pad2 (day a) = pad2 (day b)" "pad2 (hour a) = pad2 (hour b)"
    "pad2 (minute a) = pad2 (minute b)" "pad2 (second a) = pad2 (second b)"
    by (simp_all add: strftime_parts)
  from assms(1,2) have r: "year a < 10000" "year b < 10000" "month a < 100" "month b < 100"
    "day a < 100" "day b < 100" "hour a < 100" "hour b < 100" "minute a < 100" "minute b < 100"
    "second a < 100" "second b < 100"
    by (simp_all add: valid_datetime_def)
  show ?thesis
    unfolding same_second_def
    using pad4_inj [OF p(1) r(1,2)] pad2_inj [OF p(2) r(3,4)] pad2_inj [OF p(3) r(5,6)]
      pad2_inj [OF p(4) r(7,8)] pad2_inj [OF p(5) r(9,10)] pad2_inj [OF p(6) r(11,12)]
    by simp
qed

lemma same_second_name: "same_second a b \<Longrightarrow> report_name a = report_name b"
  by (simp add: same_second_def report_name_def strftime_def)

lemma report_name_inj:
  "valid_datetime a \<Longrightarrow> valid_datetime b \<Longrightarrow> report_name a = report_name b \<Longrightarrow> same_second a b"
  by (rule strftime_inj) (simp_all add: report_name_def)

lemma report_name_shape: "name_with_date_and_time (report_name now)"
  using all_digits_pad [of "year now"] all_digits_pad [of "month now"]
    all_digits_pad [of "day now"] all_digits_pad [of "hour now"]
    all_digits_pad [of "minute now"] all_digits_pad [of "second now"]
  by (simp add: name_with_date_and_time_def report_name_def strftime_def all_digits_append)

lemma os_mkdir_keeps:
  "os_mkdir d fs = (r, fs') \<Longrightarrow> fs q = Some n \<Longrightarrow> fs' q = Some n"
  by (auto simp: os_mkdir_def split: if_splits option.splits node.splits)

lemma unless_is_dir_keeps:
  "unless_is_dir e d fs = (r, fs') \<Longrightarrow> fs' = fs"
  by (auto simp: unless_is_dir_def split: sum.splits bool.splits)

lemma mkdir_exist_ok_keeps:
  "mkdir_exist_ok d fs = (r, fs') \<Longrightarrow> fs q = Some n \<Longrightarrow> fs' q = Some n"
  by (auto simp: mkdir_exist_ok_def split: prod.splits option.splits if_splits
      dest: os_mkdir_keeps unless_is_dir_keeps)

lemma mkdir_parents_keeps:
  "mkdir_parents d fs = (r, fs') \<Longrightarrow> fs q = Some n \<Longrightarrow> fs' q = Some n"
proof (induction d fs arbitrary: r fs' rule: mkdir_parents.induct)
  case (1 d fs)
  show ?case
  proof (cases "os_mkdir d fs")
    case (Pair e fs0)
    show ?thesis
    proof (cases e)
      case None
      with Pair "1.prems" show ?thesis
        by (auto simp: mkdir_parents.simps [of d fs] dest: os_mkdir_keeps)
    next
      case (Some err)
      show ?thesis
      proof (cases "err = FileNotFoundError \<and> d \<noteq> []")
        case False
        with Pair Some "1.prems" show ?thesis
          by (auto simp: mkdir_parents.simps [of d fs] split: if_splits
              dest: unless_is_dir_keeps)
      next
        case True
        obtain r1 fs1 where p: "mkdir_parents (butlast d) fs = (r1, fs1)"
          by (cases "mkdir_parents (butlast d) fs")
        have k: "fs1 q = Some n"
          using "1.IH" [OF Pair [symmetric] Some True [THEN conjunct1] True [THEN conjunct2] p "1.prems"(2)] .
        from Pair Some True p "1.prems"(1) k show ?thesis
          by (auto simp: mkdir_parents.simps [of d fs] split: option.splits
              dest: mkdir_exist_ok_keeps)
      qed
    qed
  qed
qed

lemma generate_success:
  assumes "generate_pdf_report plt config now now_title fs = (Inr p, fs')"
  shows "\<exists>df fs1. load_json_dataset fs (json_path config) = Inr df
      \<and> mkdir_parents (report_dir config) fs = (None, fs1)
      \<and> p = report_dir config @ [report_name now]
      \<and> fst (write_pages plt config df now_title
                (numeric_columns df) (categorical_columns df)) = None
      \<and> fs' = fs1(p \<mapsto> PdfFile (snd (write_pages plt config df now_title
                                        (numeric_columns df) (categorical_columns df))))"
  using assms
  by (auto simp: generate_pdf_report_def Let_def
      split: sum.splits prod.splits option.splits if_splits)

text \<open>
  The document of a successful run is the page sequence of \<open>write_pages\<close> for the
  loaded Dataset, whose column labels are distinct.
\<close>

lemma generated_document:
  assumes "generate_pdf_report plt config now now_title fs = (Inr p, fs')"
  shows "\<exists>df. load_json_dataset fs (json_path config) = Inr df
      \<and> distinct (map col_name (columns df))
      \<and> fs' p = Some (PdfFile (snd (write_pages plt config df now_title
                                    (numeric_columns df) (categorical_columns df))))"
proof -
  from generate_success [OF assms] obtain df fs1 where
    g: "load_json_dataset fs (json_path config) = Inr df"
      "fs' = fs1(p \<mapsto> PdfFile (snd (write_pages plt config df now_title
                                     (numeric_columns df) (categorical_columns df))))"
    by blast
  from g(1) have "distinct (map col_name (columns df))"
    by (rule load_distinct)
  with g show ?thesis by auto
qed

text \<open>
  Claim C6, as the code has it. The report is written to the destination directory
  under the name \<open>report_\<close>, the date in eight digits, an underscore, the time in six
  digits, and \<open>.pdf\<close>, from the local clock reading that \<open>generate_pdf_report\<close> takes.
  Of two successful runs into the same directory, the second, when its reading is in
  the same calendar second as the first, has the same path and replaces the document
  there by its own; when the readings differ in the second or in any larger field, the
  paths differ and the report of the first run is left as it was.
\<close>

theorem report_name_versioning:
  assumes "generate_pdf_report plt config now now_title fs = (Inr p, fs1)"
      and "generate_pdf_report plt' config' now' now_title' fs1 = (Inr p', fs2)"
      and "report_dir config' = report_dir config"
      and "valid_datetime now" and "valid_datetime now'"
  shows "p = report_dir config @ [report_name now]
     \<and> name_with_date_and_time (report_name now)
     \<and> (\<exists>pages. fs1 p = Some (PdfFile pages))
     \<and> (same_second now now' \<longrightarrow>
          p' = p
          \<and> (\<exists>df'. load_json_dataset fs1 (json_path config') = Inr df'
                \<and> fs2 p = Some (PdfFile (snd (write_pages plt' config' df' now_title'
                                      (numeric_columns df') (categorical_columns df'))))))
     \<and> (\<not> same_second now now' \<longrightarrow> p' \<noteq> p \<and> fs2 p = fs1 p)"
proof -
  from generate_success [OF assms(1)] obtain df fs0' where
    run1: "p = report_dir config @ [report_name now]"
      "fs1 = fs0'(p \<mapsto> PdfFile (snd (write_pages plt config df now_title
                                      (numeric_columns df) (categorical_columns df))))"
    by blast
  from generate_success [OF assms(2)] obtain df' fs1' where
    run2: "load_json_dataset fs1 (json_path config') = Inr df'"
      "mkdir_parents (report_dir config') fs1 = (None, fs1')"
      "p' = report_dir config' @ [report_name now']"
      "fs2 = fs1'(p' \<mapsto> PdfFile (snd (write_pages plt' config' df' now_title'
                                       (numeric_columns df') (categorical_columns df'))))"
    by blast
  have written: "\<exists>pages. fs1 p = Some (PdfFile pages)"
    by (simp add: run1(2))
  have same: "p' = p
      \<and> (\<exists>df'. load_json_dataset fs1 (json_path config') = Inr df'
            \<and> fs2 p = Some (PdfFile (snd (write_pages plt' config' df' now_title'
                                  (numeric_columns df') (categorical_columns df')))))"
    if "same_second now now'"
  proof -
    from that have "report_name now = report_name now'"
      by (rule same_second_name)
    then have "p' = p"
      by (simp add: run1(1) run2(3) assms(3))
    with run2(1,4) show ?thesis by auto
  qed
  have other: "p' \<noteq> p \<and> fs2 p = fs1 p" if "\<not> same_second now now'"
  proof -
    have "report_name now \<noteq> report_name now'"
      using report_name_inj [OF assms(4,5)] that by blast
    then have ne: "p' \<noteq> p"
      by (simp add: run1(1) run2(3) assms(3))
    from written obtain pages where "fs1 p = Some (PdfFile pages)" ..
    then have "fs1' p = fs1 p"
      using mkdir_parents_keeps [OF run2(2)] by simp
    with ne show ?thesis
      by (simp add: run2(4))
  qed
  show ?thesis
    using run1(1) report_name_shape written same other by blast
qed


theorem report_name_versioning_witness:
  "fst (generate_pdf_report mathtext_plotting
          \<lparr>json_path = [''data.json''], report_dir = [''Reports''], title = None\<rparr>
          \<lparr>year = 2024, month = 1, day = 2, hour = 3, minute = 4, second = 5, microsecond = 6\<rparr>
          \<lparr>year = 2024, month = 1, day = 2, hour = 3, minute = 4, second = 5, microsecond = 7\<rparr>
          (Map.empty([''data.json''] \<mapsto> JsonFile (JArr [JObj [(''value'', JInt 1)]]))))
     = Inr [''Reports'', ''report_20240102_030405.pdf'']
   \<and> fst (generate_pdf_report mathtext_plotting
          \<lparr>json_path = [''data.json''], report_dir = [''Reports''], title = None\<rparr>
          \<lparr>year = 2024, month = 1, day = 2, hour = 3, minute = 4, second = 5, microsecond = 900\<rparr>
          \<lparr>year = 2024, month = 1, day = 2, hour = 3, minute = 4, second = 5, microsecond = 901\<rparr>
          (snd (generate_pdf_report mathtext_plotting
             \<lparr>json_path = [''data.json''], report_dir = [''Reports''], title = None\<rparr>
             \<lparr>year = 2024, month = 1, day = 2, hour = 3, minute = 4, second = 5, microsecond = 6\<rparr>
             \<lparr>year = 2024, month = 1, day = 2, hour = 3, minute = 4, second = 5, microsecond = 7\<rparr>
             (Map.empty([''data.json''] \<mapsto> JsonFile (JArr [JObj [(''value'', JInt 1)]]))))))
     = Inr [''Reports'', ''report_20240102_030405.pdf'']
   \<and> fst (generate_pdf_report mathtext_plotting
          \<lparr>json_path = [''data.json''], report_dir = [''Reports''], title = None\<rparr>
          \<lparr>year = 2024, month = 1, day = 2, hour = 3, minute = 4, second = 6, microsecond = 0\<rparr>
          \<lparr>year = 2024, month = 1, day = 2, hour = 3, minute = 4, second = 6, microsecond = 1\<rparr>
          (snd (generate_pdf_report mathtext_plotting
             \<lparr>json_path = [''data.json''], report_dir = [''Reports''], title = None\<rparr>
             \<lparr>year = 2024, month = 1, day = 2, hour = 3, minute = 4, second = 5, microsecond = 6\<rparr>
             \<lparr>year = 2024, month = 1, day = 2, hour = 3, minute = 4, second = 5, microsecond = 7\<rparr>
             (Map.empty([''data.json''] \<mapsto> JsonFile (JArr [JObj [(''value'', JInt 1)]]))))))
     = Inr [''Reports'', ''report_20240102_030406.pdf'']
   \<and> snd (generate_pdf_report mathtext_plotting
          \<lparr>json_path = [''data.json''], report_dir = [''Reports''], title = None\<rparr>
          \<lparr>year = 2024, month = 1, day = 2, hour = 3, minute = 4, second = 6, microsecond = 0\<rparr>
          \<lparr>year = 2024, month = 1, day = 2, hour = 3, minute = 4, second = 6, microsecond = 1\<rparr>
          (snd (generate_pdf_report mathtext_plotting
             \<lparr>json_path = [''data.json''], report_dir = [''Reports''], title = None\<rparr>
             \<lparr>year = 2024, month = 1, day = 2, hour = 3, minute = 4, second = 5, microsecond = 6\<rparr>
             \<lparr>year = 2024, month = 1, day = 2, hour = 3, minute = 4, second = 5, microsecond = 7\<rparr>
             (Map.empty([''data.json''] \<mapsto> JsonFile (JArr [JObj [(''value'', JInt 1)]]))))))
       [''Reports'', ''report_20240102_030405.pdf'']
     = snd (generate_pdf_report mathtext_plotting
          \<lparr>json_path = [''data.json''], report_dir = [''Reports''], title = None\<rparr>
          \<lparr>year = 2024, month = 1, day = 2, hour = 3, minute = 4, second = 5, microsecond = 6\<rparr>
          \<lparr>year = 2024, month = 1, day = 2, hour = 3, minute = 4, second = 5, microsecond = 7\<rparr>
          (Map.empty([''data.json''] \<mapsto> JsonFile (JArr [JObj [(''value'', JInt 1)]]))))
       [''Reports'', ''report_20240102_030405.pdf'']"
proof -
  let ?config = "\<lparr>json_path = [''data.json''], report_dir = [''Reports''], title = None\<rparr>"
  let ?fs = "Map.empty([''data.json''] \<mapsto> JsonFile (JArr [JObj [(''value'', JInt 1)]]))"
  let ?t1 = "\<lparr>year = 2024, month = 1, day = 2, hour = 3, minute = 4, second = 5, microsecond = 6\<rparr>"
  let ?t1' = "\<lparr>year = 2024, month = 1, day = 2, hour = 3, minute = 4, second = 5, microsecond = 7\<rparr>"
  let ?t2 = "\<lparr>year = 2024, month = 1, day = 2, hour = 3, minute = 4, second = 5, microsecond = 900\<rparr>"
  let ?t2' = "\<lparr>year = 2024, month = 1, day = 2, hour = 3, minute = 4, second = 5, microsecond = 901\<rparr>"
  let ?t3 = "\<lparr>year = 2024, month = 1, day = 2, hour = 3, minute = 4, second = 6, microsecond = 0\<rparr>"
  let ?t3' = "\<lparr>year = 2024, month = 1, day = 2, hour = 3, minute = 4, second = 6, microsecond = 1\<rparr>"
  let ?p = "[''Reports'', ''report_20240102_030405.pdf'']"
  let ?p3 = "[''Reports'', ''report_20240102_030406.pdf'']"
  let ?fs1 = "snd (generate_pdf_report mathtext_plotting ?config ?t1 ?t1' ?fs)"
  let ?fs2 = "snd (generate_pdf_report mathtext_plotting ?config ?t2 ?t2' ?fs1)"
  let ?fs3 = "snd (generate_pdf_report mathtext_plotting ?config ?t3 ?t3' ?fs1)"
  have f1: "fst (generate_pdf_report mathtext_plotting ?config ?t1 ?t1' ?fs) = Inr ?p"
    by code_simp
  have f2: "fst (generate_pdf_report mathtext_plotting ?config ?t2 ?t2' ?fs1) = Inr ?p"
    by code_simp
  have f3: "fst (generate_pdf_report mathtext_plotting ?config ?t3 ?t3' ?fs1) = Inr ?p3"
    by code_simp
  have r1: "generate_pdf_report mathtext_plotting ?config ?t1 ?t1' ?fs = (Inr ?p, ?fs1)"
    using f1 by (simp add: prod_eq_iff)
  have r3: "generate_pdf_report mathtext_plotting ?config ?t3 ?t3' ?fs1 = (Inr ?p3, ?fs3)"
    using f3 by (simp add: prod_eq_iff)
  have v: "valid_datetime ?t1" "valid_datetime ?t3"
    by (simp_all add: valid_datetime_def)
  have ns: "\<not> same_second ?t1 ?t3"
    by (simp add: same_second_def)
  have "?fs3 ?p = ?fs1 ?p"
    using report_name_versioning [OF r1 r3 refl v] ns by blast
  with f1 f2 f3 show ?thesis by blast
qed

text \<open>
  Claim C6 as stated fails on the shape of the name: with the underscore between date
  and time it is not \<open>report_\<close>, fourteen digits and \<open>.pdf\<close>.
\<close>

theorem report_name_not_14_digits:
  "\<not> name_with_14_digits
       (report_name \<lparr>year = 2024, month = 1, day = 2, hour = 3, minute = 4, second = 5,
                      microsecond = 6\<rparr>)"
  by code_simp

end
